theory Spec2Isabelle
  imports Main "HOL-Library.Word"
begin

section \<open>The UE session task of the GTP-C simulator (session.cpp)\<close>

text \<open>
  A shallow embedding of \<^verbatim>\<open>UeSession\<close> (session.cpp) and of the part of
  \<^verbatim>\<open>Task\<close> it uses (task.hpp). One session runs against its scenario, the
  statistics counters and the transport. Pointers owned by the session are options
  (\<open>None\<close> is NULL); a \<^verbatim>\<open>Job*\<close> is the index of the job in the scenario's
  \<^verbatim>\<open>m_jobSeq\<close>. Dereferencing NULL or a pointer read past the end of the vector, and
  an exception leaving \<^verbatim>\<open>run\<close>, are results \<open>Inl fault\<close>. The logging macro
  \<^verbatim>\<open>LOG_EXITFN(x)\<close> (logger.hpp, outside the sources) returns \<open>x\<close> from the
  enclosing function: it is the only return the functions of session.cpp have.

  Times, the retry count and the job index are natural numbers: a time is only ever the
  clock plus a configured delay, \<open>m_retryCnt\<close> is incremented only below
  \<open>m_n3req\<close>, and the index only up to the length of the job sequence. The
  counters are 32-bit words. Not modelled, because nothing the session does later reads
  them: the IMSI, the local TEIDs, the bearer masks, the last sequence number recorded
  per peer (\<^verbatim>\<open>updatePeerSeqNumber\<close>), and the session map.
\<close>

subsection \<open>Types\<close>

type_synonym Time_t = nat
type_synonym Counter = "32 word"
type_synonym GtpMsgType_t = "8 word"
type_synonym GtpSeqNumber_t = "32 word"
type_synonym GtpTeid_t = "32 word"
type_synonym TransConnId = nat

datatype RETVAL = ROK | ROK_OVER | RFAILED | ERR_MAX_RETRY_EXCEEDED

datatype TaskState_t =
  TASK_STATE_INVALID | TASK_STATE_RUNNING | TASK_STATE_PAUSED | TASK_STATE_STOPPED

datatype JobType_t = JOB_TYPE_INV | JOB_TYPE_SEND | JOB_TYPE_RECV | JOB_TYPE_WAIT

text \<open>The two categories session.cpp compares against, and every other one.\<close>

datatype GtpMsgCategory_t = GTP_MSG_CAT_REQ | GTP_MSG_CAT_RSP | GTP_MSG_CAT_OTHER

datatype GtpIfType_t = GTP_IF_S11_C_MME | GTP_IF_OTHER

text \<open>
  Modelled from the spec: the two flags of \<^verbatim>\<open>m_bitmask\<close> (their values and the
  macros \<^verbatim>\<open>GSIM_CHK_MASK\<close>, \<^verbatim>\<open>GSIM_SET_MASK\<close> and \<^verbatim>\<open>GSIM_UNSET_MASK\<close> are
  in macros.hpp, outside the sources). The bitmask is the set of the flags that are set;
  the macros are membership, insertion and removal.
\<close>

datatype SsnFlag = GSIM_UE_SSN_WAITING_FOR_RSP | GSIM_UE_SSN_SCN_COMPLETE

datatype fault =
  BadJobPtr | JobIndexOutOfRange | NullGtpMsg | NullPdn | NullSentMsg | NullFteid
  | NullBearer | Thrown RETVAL

record IPEndPoint =
  ipAddr :: "32 word"
  port :: "16 word"

text \<open>
  A GTP-C message as far as the session reads and writes it: the header's type, TEID and
  sequence number, the TEID of the sender F-TEID IE (instance 0) when the message has
  one, and the EBIs of its Bearer Context IEs. The byte-level codec is outside
  session.cpp, so a \<^verbatim>\<open>Buffer\<close> holding an encoded message is the message itself.
\<close>

record GtpMsg =
  g_type :: GtpMsgType_t
  g_teid :: GtpTeid_t
  g_seqNumber :: GtpSeqNumber_t
  g_fteid :: "GtpTeid_t option"
  g_ebis :: "nat list"

type_synonym Buffer = GtpMsg

record UdpData_t =
  connId :: TransConnId
  peerEp :: IPEndPoint
  buf :: Buffer

text \<open>
  A job of the scenario (scenario.hpp is outside the sources), as session.cpp and the
  display read it: \<^verbatim>\<open>type()\<close>, \<^verbatim>\<open>getGtpMsg()\<close> (NULL for a job without a
  message), \<^verbatim>\<open>wait()\<close> and the six counters.
\<close>

record Job =
  j_type :: JobType_t
  j_gtpMsg :: "GtpMsg option"
  j_wait :: Time_t
  m_numSnd :: Counter
  m_numSndRetrans :: Counter
  m_numRcv :: Counter
  m_numRcvRetrans :: Counter
  m_numTimeOut :: Counter
  m_numUnexp :: Counter

record UeProc =
  proc_connId :: TransConnId
  seqNumber :: GtpSeqNumber_t
  reqType :: GtpMsgType_t
  rspType :: GtpMsgType_t
  sentMsg :: "UdpData_t option"
  procTask :: "nat option"

record GtpcTun =
  tun_remTeid :: GtpTeid_t
  tun_peerEp :: IPEndPoint
  tun_refCount :: nat

record Stats =
  GSIM_STAT_NUM_SESSIONS_CREATED :: Counter
  GSIM_STAT_NUM_SESSIONS :: Counter
  GSIM_STAT_NUM_SESSIONS_SUCC :: Counter
  GSIM_STAT_NUM_SESSIONS_FAIL :: Counter

text \<open>
  The state one session runs in. \<open>m_jobSeq\<close> and \<open>m_ifType\<close> are the scenario
  (\<^verbatim>\<open>m_pScn\<close>), whose jobs carry the counters; \<open>stats\<close> are the global counters;
  \<open>sent\<close> lists the datagrams handed to \<^verbatim>\<open>sendMsg\<close>, latest last; \<open>freed\<close>
  lists the datagrams deleted. The remaining fields are the members of
  \<^verbatim>\<open>UeSession\<close>: \<open>m_tuns\<close> holds the control tunnels the session has created,
  \<open>m_pdnLst\<close> gives for each PDN the index of its \<^verbatim>\<open>pCTun\<close> there,
  \<open>m_pCurrPdn\<close> is an index into \<open>m_pdnLst\<close>, \<open>m_bearerVec\<close> the EBIs that
  have a bearer, and \<open>m_taskState\<close> the member of \<^verbatim>\<open>Task\<close>.
\<close>

record World =
  m_jobSeq :: "Job list"
  m_ifType :: GtpIfType_t
  stats :: Stats
  sent :: "(TransConnId \<times> IPEndPoint \<times> Buffer) list"
  freed :: "UdpData_t list"
  m_n3req :: nat
  m_retryCnt :: nat
  m_t3time :: Time_t
  m_deadCallWait :: Time_t
  m_peerEp :: IPEndPoint
  m_currTaskIndx :: nat
  m_currTask :: "nat option"
  m_bitmask :: "SsnFlag set"
  m_lastRunTime :: Time_t
  m_wakeTime :: Time_t
  m_currUeProc :: UeProc
  m_prevUeProc :: UeProc
  m_currReqType :: GtpMsgType_t
  m_tuns :: "GtpcTun list"
  m_pdnLst :: "nat list"
  m_pCurrPdn :: "nat option"
  m_bearerVec :: "nat list"
  m_taskState :: TaskState_t

text \<open>
  What one call of \<^verbatim>\<open>run\<close> reads from collaborators that are not in session.cpp:
  the clock (\<open>e_now\<close>, and \<open>e_now2\<close> for the re-entrant \<^verbatim>\<open>this->run()\<close>),
  \<^verbatim>\<open>gtpGetMsgCategory\<close>, the number \<^verbatim>\<open>generateSeqNum\<close> returns and the
  status \<^verbatim>\<open>setSenderFteid\<close> returns.
\<close>

record Env =
  e_now :: Time_t
  e_now2 :: Time_t
  gtpGetMsgCategory :: "GtpMsgType_t \<Rightarrow> GtpMsgCategory_t"
  generateSeqNum :: GtpSeqNumber_t
  setSenderFteid :: RETVAL

record Config =
  getN3Requests :: nat
  getT3Timer :: Time_t
  getDeadCallWait :: Time_t
  getRemoteEp :: IPEndPoint

text \<open>
  Modelled from the spec: the message types of Create Session Request and Response
  (gtp_types.hpp is outside the sources), with the values GTPv2 gives them.
\<close>

definition GTPC_MSG_CS_REQ :: GtpMsgType_t where
  "GTPC_MSG_CS_REQ = 32"

text \<open>Modelled from the spec: the type of Create Session Response, as above.\<close>

definition GTPC_MSG_CS_RSP :: GtpMsgType_t where
  "GTPC_MSG_CS_RSP = 33"

subsection \<open>Task, statistics, transport and memory\<close>

text \<open>
  Modelled from the spec: \<^verbatim>\<open>Task::pause\<close> is declared in task.hpp and defined
  outside the sources. A task "sets a new wake time and pauses (returns to the wheel),
  stops (removed from all indices), or remains runnable"; the call leaves the task in
  the \<^verbatim>\<open>TaskState_t\<close> it names.
\<close>

definition pause :: "World \<Rightarrow> World" where
  "pause w = w\<lparr>m_taskState := TASK_STATE_PAUSED\<rparr>"

text \<open>
  Modelled from the spec: \<^verbatim>\<open>Task::stop\<close>, declared in task.hpp and defined outside
  the sources, leaves the task stopped.
\<close>

definition stop :: "World \<Rightarrow> World" where
  "stop w = w\<lparr>m_taskState := TASK_STATE_STOPPED\<rparr>"

text \<open>
  Modelled from the spec: \<^verbatim>\<open>Task::resumeTask\<close>, declared in task.hpp ("wake this up
  a paused task") and defined outside the sources, leaves the task running.
\<close>

definition resumeTask :: "World \<Rightarrow> World" where
  "resumeTask w = w\<lparr>m_taskState := TASK_STATE_RUNNING\<rparr>"

text \<open>
  Modelled from the spec: \<^verbatim>\<open>Stats::incStats\<close> and \<^verbatim>\<open>Stats::decStats\<close>
  (gtp_stats.hpp is outside the sources) add and subtract one on the unsigned counter
  they are given; \<open>incStats f\<close> applies the change \<open>f\<close> of one counter, and the five
  changes session.cpp makes follow.
\<close>

definition incStats :: "(Stats \<Rightarrow> Stats) \<Rightarrow> World \<Rightarrow> World" where
  "incStats f w = w\<lparr>stats := f (stats w)\<rparr>"

definition inc_CREATED :: "Stats \<Rightarrow> Stats" where
  "inc_CREATED s = s\<lparr>GSIM_STAT_NUM_SESSIONS_CREATED := GSIM_STAT_NUM_SESSIONS_CREATED s + 1\<rparr>"

definition inc_SESSIONS :: "Stats \<Rightarrow> Stats" where
  "inc_SESSIONS s = s\<lparr>GSIM_STAT_NUM_SESSIONS := GSIM_STAT_NUM_SESSIONS s + 1\<rparr>"

definition dec_SESSIONS :: "Stats \<Rightarrow> Stats" where
  "dec_SESSIONS s = s\<lparr>GSIM_STAT_NUM_SESSIONS := GSIM_STAT_NUM_SESSIONS s - 1\<rparr>"

definition inc_SUCC :: "Stats \<Rightarrow> Stats" where
  "inc_SUCC s = s\<lparr>GSIM_STAT_NUM_SESSIONS_SUCC := GSIM_STAT_NUM_SESSIONS_SUCC s + 1\<rparr>"

definition inc_FAIL :: "Stats \<Rightarrow> Stats" where
  "inc_FAIL s = s\<lparr>GSIM_STAT_NUM_SESSIONS_FAIL := GSIM_STAT_NUM_SESSIONS_FAIL s + 1\<rparr>"

text \<open>\<^verbatim>\<open>sendMsg(connId, &peerEp, new Buffer(buf))\<close>; session.cpp ignores its status.\<close>

definition sendMsg :: "TransConnId \<Rightarrow> IPEndPoint \<Rightarrow> Buffer \<Rightarrow> World \<Rightarrow> World" where
  "sendMsg c ep b w = w\<lparr>sent := sent w @ [(c, ep, b)]\<rparr>"

text \<open>\<^verbatim>\<open>delete p\<close> for a datagram pointer: nothing for NULL.\<close>

definition delete_data :: "UdpData_t option \<Rightarrow> World \<Rightarrow> World" where
  "delete_data p w = (case p of None \<Rightarrow> w | Some d \<Rightarrow> w\<lparr>freed := freed w @ [d]\<rparr>)"

subsection \<open>Jobs\<close>

text \<open>
  \<^verbatim>\<open>m_pScn->m_jobSeq[i]\<close> as a pointer. The vector's \<^verbatim>\<open>operator[]\<close> does not check
  its index; a read past the end gives a pointer that is no job, \<open>None\<close>.
\<close>

definition jobAt :: "World \<Rightarrow> nat \<Rightarrow> nat option" where
  "jobAt w i = (if i < length (m_jobSeq w) then Some i else None)"

definition derefJob :: "World \<Rightarrow> nat option \<Rightarrow> fault + Job" where
  "derefJob w p =
     (case p of
        None \<Rightarrow> Inl BadJobPtr
      | Some i \<Rightarrow> if i < length (m_jobSeq w) then Inr (m_jobSeq w ! i) else Inl BadJobPtr)"

text \<open>An update through a job pointer, such as \<^verbatim>\<open>m_currTask->m_numSnd++\<close>.\<close>

definition updJob :: "nat option \<Rightarrow> (Job \<Rightarrow> Job) \<Rightarrow> World \<Rightarrow> fault + World" where
  "updJob p f w =
     (case p of
        None \<Rightarrow> Inl BadJobPtr
      | Some i \<Rightarrow>
          if i < length (m_jobSeq w)
          then Inr (w\<lparr>m_jobSeq := (m_jobSeq w)[i := f (m_jobSeq w ! i)]\<rparr>)
          else Inl BadJobPtr)"

definition inc_numSnd :: "Job \<Rightarrow> Job" where
  "inc_numSnd j = j\<lparr>m_numSnd := m_numSnd j + 1\<rparr>"

definition inc_numSndRetrans :: "Job \<Rightarrow> Job" where
  "inc_numSndRetrans j = j\<lparr>m_numSndRetrans := m_numSndRetrans j + 1\<rparr>"

definition inc_numRcv :: "Job \<Rightarrow> Job" where
  "inc_numRcv j = j\<lparr>m_numRcv := m_numRcv j + 1\<rparr>"

definition inc_numRcvRetrans :: "Job \<Rightarrow> Job" where
  "inc_numRcvRetrans j = j\<lparr>m_numRcvRetrans := m_numRcvRetrans j + 1\<rparr>"

definition inc_numTimeOut :: "Job \<Rightarrow> Job" where
  "inc_numTimeOut j = j\<lparr>m_numTimeOut := m_numTimeOut j + 1\<rparr>"

definition inc_numUnexp :: "Job \<Rightarrow> Job" where
  "inc_numUnexp j = j\<lparr>m_numUnexp := m_numUnexp j + 1\<rparr>"

text \<open>\<^verbatim>\<open>m_currTask->getGtpMsg()->type()\<close> and the like: the job's template.\<close>

definition getGtpMsg :: "World \<Rightarrow> nat option \<Rightarrow> fault + GtpMsg" where
  "getGtpMsg w p =
     (case derefJob w p of
        Inl f \<Rightarrow> Inl f
      | Inr j \<Rightarrow> (case j_gtpMsg j of None \<Rightarrow> Inl NullGtpMsg | Some t \<Rightarrow> Inr t))"

text \<open>The macros \<^verbatim>\<open>UE_SSN_FINISH_TASK\<close> and \<^verbatim>\<open>IS_SCN_COMPLETED\<close>.\<close>

definition UE_SSN_FINISH_TASK :: "World \<Rightarrow> World" where
  "UE_SSN_FINISH_TASK w =
     w\<lparr>m_currTaskIndx := m_currTaskIndx w + 1,
       m_currTask := jobAt w (m_currTaskIndx w + 1)\<rparr>"

definition IS_SCN_COMPLETED :: "World \<Rightarrow> bool" where
  "IS_SCN_COMPLETED w = (m_currTaskIndx w = length (m_jobSeq w))"

subsection \<open>PDN connections, control tunnels and bearers\<close>

definition pdnTun :: "World \<Rightarrow> nat option \<Rightarrow> fault + nat" where
  "pdnTun w pPdn =
     (case pPdn of
        None \<Rightarrow> Inl NullPdn
      | Some i \<Rightarrow>
          if i < length (m_pdnLst w) \<and> m_pdnLst w ! i < length (m_tuns w)
          then Inr (m_pdnLst w ! i) else Inl NullPdn)"

text \<open>\<^verbatim>\<open>getS11S4CTun\<close>: the loop leaves the last PDN's tunnel, NULL for no PDN.\<close>

definition getS11S4CTun :: "World \<Rightarrow> nat option" where
  "getS11S4CTun w = (if m_pdnLst w = [] then None else Some (last (m_pdnLst w)))"

text \<open>
  Modelled from the spec: the constructor \<^verbatim>\<open>GtpcTun()\<close> (tunnel.hpp is outside the
  sources) gives a tunnel with no remote TEID yet and one reference.
\<close>

definition newGtpcTun :: GtpcTun where
  "newGtpcTun = \<lparr>tun_remTeid = 0, tun_peerEp = \<lparr>ipAddr = 0, port = 0\<rparr>, tun_refCount = 1\<rparr>"

definition createCTun :: "World \<Rightarrow> nat \<times> World" where
  "createCTun w =
     (if m_ifType w = GTP_IF_S11_C_MME
      then (case getS11S4CTun w of
              Some t \<Rightarrow>
                (t, w\<lparr>m_tuns := (m_tuns w)
                       [t := (m_tuns w ! t)\<lparr>tun_refCount := tun_refCount (m_tuns w ! t) + 1\<rparr>]\<rparr>)
            | None \<Rightarrow> (length (m_tuns w), w\<lparr>m_tuns := m_tuns w @ [newGtpcTun]\<rparr>))
      else (length (m_tuns w), w\<lparr>m_tuns := m_tuns w @ [newGtpcTun]\<rparr>))"

text \<open>
  \<^verbatim>\<open>createPdn\<close>: a PDN is its control tunnel here (its bearer mask is only read by
  the destructor), so the new PDN is what \<^verbatim>\<open>createCTun\<close> returns. The two
  \<^verbatim>\<open>catch\<close> blocks (a failed allocation) are not modelled.
\<close>

definition createPdn :: "World \<Rightarrow> nat \<times> World" where
  "createPdn w = createCTun w"

text \<open>
  The block \<^verbatim>\<open>Creating PDN Connection\<close> of \<^verbatim>\<open>handleOutReqMsg\<close> and
  \<^verbatim>\<open>handleIncReqMsg\<close>: the two counters, \<^verbatim>\<open>createPdn\<close>,
  \<^verbatim>\<open>m_pdnLst.push_back(pPdn)\<close> and \<^verbatim>\<open>m_pCurrPdn = pPdn\<close>. The result is the new
  PDN and the state.
\<close>

definition creatingPdnConnection :: "World \<Rightarrow> nat option \<times> World" where
  "creatingPdnConnection w =
     (let w1 = incStats inc_SESSIONS (incStats inc_CREATED w);
          tw = createPdn w1;
          p = length (m_pdnLst (snd tw))
      in (Some p, (snd tw)\<lparr>m_pdnLst := m_pdnLst (snd tw) @ [fst tw], m_pCurrPdn := Some p\<rparr>))"

definition createBearers :: "GtpMsg \<Rightarrow> World \<Rightarrow> World" where
  "createBearers pGtpMsg w =
     (if g_type pGtpMsg = GTPC_MSG_CS_REQ
      then w\<lparr>m_bearerVec := m_bearerVec w @ g_ebis pGtpMsg\<rparr> else w)"

definition decAndStoreGtpcIncMsg ::
  "nat option \<Rightarrow> GtpMsg \<Rightarrow> IPEndPoint \<Rightarrow> World \<Rightarrow> fault + World" where
  "decAndStoreGtpcIncMsg pPdn pGtpMsg pPeerEp w =
     (case pdnTun w pPdn of
        Inl f \<Rightarrow> Inl f
      | Inr t \<Rightarrow>
          (case (if g_type pGtpMsg = GTPC_MSG_CS_REQ \<or> g_type pGtpMsg = GTPC_MSG_CS_RSP
                 then (case g_fteid pGtpMsg of
                         None \<Rightarrow> Inl NullFteid
                       | Some teid \<Rightarrow> Inr ((m_tuns w ! t)\<lparr>tun_remTeid := teid\<rparr>))
                 else Inr (m_tuns w ! t)) of
             Inl f \<Rightarrow> Inl f
           | Inr tun \<Rightarrow>
               Inr (createBearers pGtpMsg
                      (w\<lparr>m_tuns := (m_tuns w)[t := tun\<lparr>tun_peerEp := pPeerEp\<rparr>]\<rparr>))))"

definition encGtpcOutMsg :: "Env \<Rightarrow> nat option \<Rightarrow> GtpMsg \<Rightarrow> World \<Rightarrow> fault + Buffer" where
  "encGtpcOutMsg env pPdn pGtpMsg w =
     (case pdnTun w pPdn of
        Inl f \<Rightarrow> Inl f
      | Inr t \<Rightarrow>
          if (g_type pGtpMsg = GTPC_MSG_CS_REQ \<or> g_type pGtpMsg = GTPC_MSG_CS_RSP)
             \<and> setSenderFteid env \<noteq> ROK
          then Inl (Thrown (setSenderFteid env))
          else if list_all (\<lambda>ebi. ebi \<in> set (m_bearerVec w)) (g_ebis pGtpMsg)
          then Inr (pGtpMsg\<lparr>g_teid := tun_remTeid (m_tuns w ! t),
                            g_seqNumber := seqNumber (m_currUeProc w)\<rparr>)
          else Inl NullBearer)"

subsection \<open>Completion, send and wait\<close>

definition handleCompletedTask :: "World \<Rightarrow> World" where
  "handleCompletedTask w =
     (let w1 = incStats dec_SESSIONS (incStats inc_SUCC w)
      in pause (w1\<lparr>m_bitmask := insert GSIM_UE_SSN_SCN_COMPLETE (m_bitmask w1),
                   m_wakeTime := m_lastRunTime w1 + m_deadCallWait w1\<rparr>))"

definition handleOutReqTimeout :: "World \<Rightarrow> fault + RETVAL \<times> World" where
  "handleOutReqTimeout w =
     (if m_retryCnt w \<ge> m_n3req w
      then Inr (ERR_MAX_RETRY_EXCEEDED,
                (delete_data (sentMsg (m_currUeProc w)) w)
                  \<lparr>m_currUeProc := (m_currUeProc w)\<lparr>sentMsg := None\<rparr>\<rparr>)
      else (case sentMsg (m_currUeProc w) of
              None \<Rightarrow> Inl NullSentMsg
            | Some d \<Rightarrow>
                (case updJob (m_currTask w) inc_numSndRetrans
                        (sendMsg (connId d) (peerEp d) (buf d) w) of
                   Inl f \<Rightarrow> Inl f
                 | Inr w1 \<Rightarrow>
                     Inr (ROK, pause (w1\<lparr>m_retryCnt := m_retryCnt w1 + 1,
                                         m_wakeTime := m_lastRunTime w1 + m_t3time w1\<rparr>)))))"

definition handleOutReqMsg :: "Env \<Rightarrow> GtpMsg \<Rightarrow> World \<Rightarrow> fault + RETVAL \<times> World" where
  "handleOutReqMsg env gtpMsg w =
     (let pw = (if g_type gtpMsg = GTPC_MSG_CS_REQ then creatingPdnConnection w
                 else (m_pCurrPdn w, w));
          w2 = createBearers gtpMsg (snd pw);
          w3 = w2\<lparr>m_currUeProc := (m_currUeProc w2)\<lparr>seqNumber := generateSeqNum env\<rparr>,
                  m_currReqType := g_type gtpMsg\<rparr>
      in (case encGtpcOutMsg env (fst pw) gtpMsg w3 of
            Inl f \<Rightarrow> Inl f
          | Inr b \<Rightarrow>
              (case updJob (m_currTask w3) inc_numSnd (sendMsg 0 (m_peerEp w3) b w3) of
                 Inl f \<Rightarrow> Inl f
               | Inr w4 \<Rightarrow>
                   Inr (ROK,
                        w4\<lparr>m_currUeProc := (m_currUeProc w4)
                              \<lparr>sentMsg := Some \<lparr>connId = 0, peerEp = m_peerEp w3, buf = b\<rparr>\<rparr>,
                           m_bitmask := insert GSIM_UE_SSN_WAITING_FOR_RSP (m_bitmask w4),
                           m_wakeTime := m_lastRunTime w4 + m_t3time w4\<rparr>))))"

definition handleOutRspMsg :: "Env \<Rightarrow> GtpMsg \<Rightarrow> World \<Rightarrow> fault + RETVAL \<times> World" where
  "handleOutRspMsg env gtpMsg w =
     (case getGtpMsg w (m_currTask w) of
        Inl f \<Rightarrow> Inl f
      | Inr t \<Rightarrow>
     (case encGtpcOutMsg env (m_pCurrPdn w) t w of
        Inl f \<Rightarrow> Inl f
      | Inr b \<Rightarrow>
     (case pdnTun w (m_pCurrPdn w) of
        Inl f \<Rightarrow> Inl f
      | Inr tn \<Rightarrow>
     (let pNwData = \<lparr>connId = proc_connId (m_currUeProc w),
                     peerEp = tun_peerEp (m_tuns w ! tn), buf = b\<rparr>
      in (case updJob (m_currTask w) inc_numSnd
                 (sendMsg (connId pNwData) (peerEp pNwData) (buf pNwData) w) of
            Inl f \<Rightarrow> Inl f
          | Inr w1 \<Rightarrow>
              (let w2 = (delete_data (sentMsg (m_prevUeProc w1)) w1)
                          \<lparr>m_prevUeProc := (m_prevUeProc w1)
                             \<lparr>sentMsg := Some pNwData, rspType := g_type gtpMsg\<rparr>\<rparr>;
                   w3 = UE_SSN_FINISH_TASK w2
               in Inr (ROK, if IS_SCN_COMPLETED w3 then handleCompletedTask w3 else w3)))))))"

definition handleSend :: "Env \<Rightarrow> World \<Rightarrow> fault + RETVAL \<times> World" where
  "handleSend env w =
     (if GSIM_UE_SSN_WAITING_FOR_RSP \<in> m_bitmask w
      then (case handleOutReqTimeout w of
              Inl f \<Rightarrow> Inl f
            | Inr rw \<Rightarrow>
                if fst rw = ERR_MAX_RETRY_EXCEEDED
                then (case updJob (m_currTask (snd rw)) inc_numTimeOut (snd rw) of
                        Inl f \<Rightarrow> Inl f
                      | Inr w2 \<Rightarrow>
                          (let w3 = incStats inc_FAIL w2
                           in Inr (ROK_OVER,
                                   (delete_data (sentMsg (m_currUeProc w3)) w3)
                                     \<lparr>m_currUeProc := (m_currUeProc w3)\<lparr>sentMsg := None\<rparr>\<rparr>)))
                else Inr rw)
      else (case getGtpMsg w (m_currTask w) of
              Inl f \<Rightarrow> Inl f
            | Inr gtpMsg \<Rightarrow>
                if gtpGetMsgCategory env (g_type gtpMsg) = GTP_MSG_CAT_REQ
                then (case handleOutReqMsg env gtpMsg w of
                        Inl f \<Rightarrow> Inl f
                      | Inr rw \<Rightarrow>
                          if fst rw \<noteq> ROK then Inr (ROK_OVER, snd rw)
                          else Inr (fst rw, pause (snd rw)))
                else (case handleOutRspMsg env gtpMsg w of
                        Inl f \<Rightarrow> Inl f
                      | Inr rw \<Rightarrow>
                          if fst rw \<noteq> ROK then Inr (ROK_OVER, snd rw)
                          else Inr (fst rw, stop (snd rw)))))"

definition handleWait :: "World \<Rightarrow> fault + RETVAL \<times> World" where
  "handleWait w =
     (case derefJob w (m_currTask w) of
        Inl f \<Rightarrow> Inl f
      | Inr j \<Rightarrow>
          Inr (ROK, pause (UE_SSN_FINISH_TASK (w\<lparr>m_wakeTime := m_lastRunTime w + j_wait j\<rparr>))))"

subsection \<open>Classifying an inbound message\<close>

definition isExpectedRsp :: "World \<Rightarrow> GtpMsg \<Rightarrow> fault + bool" where
  "isExpectedRsp w rspMsg =
     (case jobAt w (m_currTaskIndx w + 1) of
        None \<Rightarrow> Inl JobIndexOutOfRange
      | Some i \<Rightarrow>
          (case getGtpMsg w (Some i) of
             Inl f \<Rightarrow> Inl f
           | Inr expectedRspMsg \<Rightarrow>
               Inr (g_type expectedRspMsg = g_type rspMsg
                    \<and> seqNumber (m_currUeProc w) = g_seqNumber rspMsg)))"

definition isExpectedReq :: "World \<Rightarrow> GtpMsg \<Rightarrow> fault + bool" where
  "isExpectedReq w reqMsg =
     (case getGtpMsg w (m_currTask w) of
        Inl f \<Rightarrow> Inl f
      | Inr expectedReqMsg \<Rightarrow>
          Inr (g_type expectedReqMsg = g_type reqMsg
               \<and> seqNumber (m_currUeProc w) < g_seqNumber reqMsg))"

definition isPrevProcRsp :: "World \<Rightarrow> GtpMsg \<Rightarrow> bool" where
  "isPrevProcRsp w rspMsg =
     (m_currTaskIndx w > 0 \<and> rspType (m_prevUeProc w) = g_type rspMsg
      \<and> seqNumber (m_prevUeProc w) = g_seqNumber rspMsg)"

definition isPrevProcReq :: "World \<Rightarrow> GtpMsg \<Rightarrow> bool" where
  "isPrevProcReq w reqMsg =
     (m_currTaskIndx w > 0 \<and> reqType (m_prevUeProc w) = g_type reqMsg
      \<and> seqNumber (m_prevUeProc w) = g_seqNumber reqMsg)"

subsection \<open>Dead calls and the timer wake\<close>

text \<open>The retransmission both duplicate-request paths make.\<close>

definition resendPrevRsp :: "World \<Rightarrow> fault + World" where
  "resendPrevRsp w =
     (case updJob (procTask (m_prevUeProc w)) inc_numRcvRetrans w of
        Inl f \<Rightarrow> Inl f
      | Inr w1 \<Rightarrow>
          (case sentMsg (m_prevUeProc w1) of
             None \<Rightarrow> Inl NullSentMsg
           | Some d \<Rightarrow> Inr (sendMsg (connId d) (peerEp d) (buf d) w1)))"

definition handleDeadCall :: "Env \<Rightarrow> UdpData_t option \<Rightarrow> World \<Rightarrow> fault + RETVAL \<times> World" where
  "handleDeadCall env arg w =
     (case arg of
        None \<Rightarrow> Inr (if m_lastRunTime w \<ge> m_wakeTime w then ROK_OVER else ROK, w)
      | Some data \<Rightarrow>
          (case (if gtpGetMsgCategory env (g_type (buf data)) = GTP_MSG_CAT_REQ
                 then (if isPrevProcReq w (buf data) then resendPrevRsp w else Inr w)
                 else if gtpGetMsgCategory env (g_type (buf data)) = GTP_MSG_CAT_RSP
                 then (if isPrevProcRsp w (buf data)
                       then updJob (procTask (m_prevUeProc w)) inc_numRcvRetrans w
                       else Inr w)
                 else Inr w) of
             Inl f \<Rightarrow> Inl f
           | Inr w1 \<Rightarrow> Inr (ROK, delete_data (Some data) w1)))"

text \<open>
  \<^verbatim>\<open>run(NULL)\<close>: the timer wake, and the re-entrant \<^verbatim>\<open>this->run()\<close> of
  \<^verbatim>\<open>handleIncReqMsg\<close>. \<^verbatim>\<open>run\<close> drops what \<^verbatim>\<open>handleDeadCall\<close> returns.
\<close>

definition run_NULL :: "Env \<Rightarrow> World \<Rightarrow> fault + RETVAL \<times> World" where
  "run_NULL env w =
     (let w1 = resumeTask (w\<lparr>m_lastRunTime := e_now env\<rparr>)
      in if GSIM_UE_SSN_SCN_COMPLETE \<in> m_bitmask w1
         then (case handleDeadCall env None w1 of
                 Inl f \<Rightarrow> Inl f
               | Inr rw \<Rightarrow> Inr (ROK, snd rw))
         else (case derefJob w1 (m_currTask w1) of
                 Inl f \<Rightarrow> Inl f
               | Inr j \<Rightarrow>
                   if j_type j = JOB_TYPE_SEND then handleSend env w1
                   else if j_type j = JOB_TYPE_WAIT then handleWait w1
                   else Inr (ROK, w1)))"

subsection \<open>Receive\<close>

definition handleIncReqMsg ::
  "Env \<Rightarrow> GtpMsg \<Rightarrow> UdpData_t \<Rightarrow> World \<Rightarrow> fault + RETVAL \<times> World" where
  "handleIncReqMsg env rcvdReq rcvdData w =
     (case isExpectedReq w rcvdReq of
        Inl f \<Rightarrow> Inl f
      | Inr expected \<Rightarrow>
          if expected
          then (case updJob (m_currTask w) inc_numRcv w of
                  Inl f \<Rightarrow> Inl f
                | Inr w1 \<Rightarrow>
                    (let pw = (if g_type rcvdReq = GTPC_MSG_CS_REQ
                               then creatingPdnConnection w1
                               else (m_pCurrPdn w1, w1));
                         w2 = snd pw;
                         w3 = w2\<lparr>m_currUeProc := (m_currUeProc w2)
                                   \<lparr>proc_connId := connId rcvdData,
                                    seqNumber := g_seqNumber rcvdReq\<rparr>,
                                 m_currReqType := g_type rcvdReq\<rparr>
                     in (case decAndStoreGtpcIncMsg (fst pw) rcvdReq (peerEp rcvdData) w3 of
                           Inl f \<Rightarrow> Inl f
                         | Inr w4 \<Rightarrow>
                             (let w5 = w4\<lparr>m_prevUeProc := (m_prevUeProc w4)
                                            \<lparr>proc_connId := proc_connId (m_currUeProc w4),
                                             seqNumber := seqNumber (m_currUeProc w4),
                                             reqType := g_type rcvdReq,
                                             procTask := m_currTask w4\<rparr>\<rparr>
                              in (case run_NULL (env\<lparr>e_now := e_now2 env\<rparr>)
                                         (UE_SSN_FINISH_TASK w5) of
                                    Inl f \<Rightarrow> Inl f
                                  | Inr rw \<Rightarrow> Inr (ROK, snd rw))))))
          else if isPrevProcReq w rcvdReq
          then (case resendPrevRsp w of Inl f \<Rightarrow> Inl f | Inr w1 \<Rightarrow> Inr (ROK, w1))
          else (case updJob (m_currTask w) inc_numUnexp w of
                  Inl f \<Rightarrow> Inl f
                | Inr w1 \<Rightarrow> Inr (ROK, w1)))"

definition handleIncRspMsg ::
  "Env \<Rightarrow> GtpMsg \<Rightarrow> UdpData_t \<Rightarrow> World \<Rightarrow> fault + RETVAL \<times> World" where
  "handleIncRspMsg env rspMsg rcvdData w =
     (case isExpectedRsp w rspMsg of
        Inl f \<Rightarrow> Inl f
      | Inr expected \<Rightarrow>
          if expected
          then (let w1 = w\<lparr>m_prevUeProc := (m_prevUeProc w)
                              \<lparr>proc_connId := connId rcvdData,
                               seqNumber := seqNumber (m_currUeProc w),
                               reqType := m_currReqType w,
                               rspType := g_type rspMsg,
                               procTask := m_currTask w\<rparr>\<rparr>;
                    w2 = UE_SSN_FINISH_TASK w1
                in (case updJob (m_currTask w2) inc_numRcv w2 of
                      Inl f \<Rightarrow> Inl f
                    | Inr w3 \<Rightarrow>
                        (case decAndStoreGtpcIncMsg (m_pCurrPdn w3) rspMsg
                                (peerEp rcvdData) w3 of
                           Inl f \<Rightarrow> Inl f
                         | Inr w4 \<Rightarrow>
                             (let w5 = w4\<lparr>m_bitmask :=
                                            m_bitmask w4 - {GSIM_UE_SSN_WAITING_FOR_RSP}\<rparr>;
                                  w6 = (delete_data (sentMsg (m_currUeProc w5)) w5)
                                         \<lparr>m_currUeProc := (m_currUeProc w5)\<lparr>sentMsg := None\<rparr>\<rparr>;
                                  w7 = UE_SSN_FINISH_TASK w6
                              in Inr (ROK, if IS_SCN_COMPLETED w7
                                           then handleCompletedTask w7 else w7)))))
          else if isPrevProcRsp w rspMsg
          then (case updJob (procTask (m_prevUeProc w)) inc_numRcvRetrans w of
                  Inl f \<Rightarrow> Inl f
                | Inr w1 \<Rightarrow> Inr (ROK, w1))
          else (case updJob (m_currTask w) inc_numUnexp w of
                  Inl f \<Rightarrow> Inl f
                | Inr w1 \<Rightarrow> Inr (ROK, w1)))"

definition handleRecv :: "Env \<Rightarrow> UdpData_t \<Rightarrow> World \<Rightarrow> fault + RETVAL \<times> World" where
  "handleRecv env data w =
     (case (if gtpGetMsgCategory env (g_type (buf data)) = GTP_MSG_CAT_REQ
            then handleIncReqMsg env (buf data) data w
            else if gtpGetMsgCategory env (g_type (buf data)) = GTP_MSG_CAT_RSP
            then handleIncRspMsg env (buf data) data w
            else Inr (ROK, w)) of
        Inl f \<Rightarrow> Inl f
      | Inr rw \<Rightarrow> Inr (fst rw, (delete_data (Some data) (snd rw))\<lparr>m_wakeTime := 0\<rparr>))"

subsection \<open>The entry point and the constructor\<close>

definition run :: "Env \<Rightarrow> UdpData_t option \<Rightarrow> World \<Rightarrow> fault + RETVAL \<times> World" where
  "run env arg w =
     (let w1 = resumeTask (w\<lparr>m_lastRunTime := e_now env\<rparr>)
      in if GSIM_UE_SSN_SCN_COMPLETE \<in> m_bitmask w1
         then (case handleDeadCall env arg w1 of
                 Inl f \<Rightarrow> Inl f
               | Inr rw \<Rightarrow> Inr (ROK, snd rw))
         else (case arg of
                 Some data \<Rightarrow> handleRecv env data w1
               | None \<Rightarrow>
                   (case derefJob w1 (m_currTask w1) of
                      Inl f \<Rightarrow> Inl f
                    | Inr j \<Rightarrow>
                        if j_type j = JOB_TYPE_SEND then handleSend env w1
                        else if j_type j = JOB_TYPE_WAIT then handleWait w1
                        else Inr (ROK, w1))))"

text \<open>
  The constructor \<^verbatim>\<open>UeSession(pScn, imsi)\<close>, for a scenario and the statistics as
  they stand. The members it does not assign (the two procedure records, the times, the
  PDN list) start as zero and NULL, and the task as running.
\<close>

definition nullUeProc :: UeProc where
  "nullUeProc = \<lparr>proc_connId = 0, seqNumber = 0, reqType = 0, rspType = 0,
                  sentMsg = None, procTask = None\<rparr>"

definition UeSession :: "Config \<Rightarrow> Job list \<Rightarrow> GtpIfType_t \<Rightarrow> Stats \<Rightarrow> World" where
  "UeSession cfg jobs ift st =
     \<lparr>m_jobSeq = jobs, m_ifType = ift, stats = st, sent = [], freed = [],
      m_n3req = getN3Requests cfg, m_retryCnt = 0, m_t3time = getT3Timer cfg,
      m_deadCallWait = getDeadCallWait cfg, m_peerEp = getRemoteEp cfg,
      m_currTaskIndx = 0, m_currTask = (if 0 < length jobs then Some 0 else None),
      m_bitmask = {}, m_lastRunTime = 0, m_wakeTime = 0,
      m_currUeProc = nullUeProc, m_prevUeProc = nullUeProc, m_currReqType = 0,
      m_tuns = [], m_pdnLst = [], m_pCurrPdn = None, m_bearerVec = [],
      m_taskState = TASK_STATE_RUNNING\<rparr>"

text \<open>The states a session passes through: the constructor's, then any runs.\<close>

inductive reachable :: "Config \<Rightarrow> Job list \<Rightarrow> GtpIfType_t \<Rightarrow> Stats \<Rightarrow> World \<Rightarrow> bool"
  for cfg :: Config and jobs :: "Job list" and ift :: GtpIfType_t and st :: Stats where
  reachable_init: "reachable cfg jobs ift st (UeSession cfg jobs ift st)"
| reachable_run:
    "reachable cfg jobs ift st w \<Longrightarrow> run env arg w = Inr (r, w')
     \<Longrightarrow> reachable cfg jobs ift st w'"

subsection \<open>Invariants\<close>

text \<open>
  The index is within the job sequence and \<open>m_currTask\<close> is what the vector holds
  there; two states with the same job positions.
\<close>

definition idx_ok :: "World \<Rightarrow> bool" where
  "idx_ok w = (m_currTaskIndx w \<le> length (m_jobSeq w) \<and> m_currTask w = jobAt w (m_currTaskIndx w))"

definition same_jobs :: "World \<Rightarrow> World \<Rightarrow> bool" where
  "same_jobs w w' = (length (m_jobSeq w') = length (m_jobSeq w)
     \<and> m_currTaskIndx w' = m_currTaskIndx w \<and> m_currTask w' = m_currTask w)"

text \<open>The balance of the session counters (testable property 6 of the specification).\<close>

definition stats_balanced :: "Stats \<Rightarrow> bool" where
  "stats_balanced s =
     (GSIM_STAT_NUM_SESSIONS_CREATED s =
        GSIM_STAT_NUM_SESSIONS_SUCC s + GSIM_STAT_NUM_SESSIONS_FAIL s + GSIM_STAT_NUM_SESSIONS s)"

text \<open>
  Two states with the same procedure records, flags, retry count, current PDN and number
  of jobs: what the counters, the transport and the tunnels leave alone.
\<close>

definition same_procs :: "World \<Rightarrow> World \<Rightarrow> bool" where
  "same_procs w w' =
     (m_bitmask w' = m_bitmask w \<and> m_currUeProc w' = m_currUeProc w
      \<and> m_prevUeProc w' = m_prevUeProc w \<and> m_retryCnt w' = m_retryCnt w
      \<and> m_n3req w' = m_n3req w \<and> m_pCurrPdn w' = m_pCurrPdn w
      \<and> length (m_jobSeq w') = length (m_jobSeq w))"


text \<open>
  Once \<open>m_prevUeProc\<close> holds a response, or the session has a PDN and does not wait
  for a response, \<open>procTask\<close> of \<open>m_prevUeProc\<close> is a job of the scenario.
\<close>

definition prev_task_ok :: "World \<Rightarrow> bool" where
  "prev_task_ok w =
     (sentMsg (m_prevUeProc w) \<noteq> None
        \<or> m_pCurrPdn w \<noteq> None \<and> GSIM_UE_SSN_WAITING_FOR_RSP \<notin> m_bitmask w
      \<longrightarrow> (case procTask (m_prevUeProc w) of
             None \<Rightarrow> False | Some k \<Rightarrow> k < length (m_jobSeq w)))"



subsection \<open>The specification's own wording\<close>

text \<open>
  The specification's sequence-number order (section 4.6): \<open>b\<close> is later than \<open>a\<close>
  when it lies within the half window after \<open>a\<close> in the 24-bit space.
\<close>

definition spec_seqLater :: "GtpSeqNumber_t \<Rightarrow> GtpSeqNumber_t \<Rightarrow> bool" where
  "spec_seqLater a b =
     (0 < (unat b + 2 ^ 24 - unat a mod 2 ^ 24) mod 2 ^ 24
      \<and> (unat b + 2 ^ 24 - unat a mod 2 ^ 24) mod 2 ^ 24 < 2 ^ 23)"

text \<open>
  The specification's \<^verbatim>\<open>isExpectedReq\<close>: the current job is a Recv of matching type
  and the incoming sequence number is later than the current procedure's.
\<close>

definition spec_isExpectedReq :: "World \<Rightarrow> GtpMsg \<Rightarrow> bool" where
  "spec_isExpectedReq w reqMsg =
     (case derefJob w (m_currTask w) of
        Inl f \<Rightarrow> False
      | Inr j \<Rightarrow>
          j_type j = JOB_TYPE_RECV
          \<and> (case j_gtpMsg j of None \<Rightarrow> False | Some t \<Rightarrow> g_type t = g_type reqMsg)
          \<and> spec_seqLater (seqNumber (m_currUeProc w)) (g_seqNumber reqMsg))"


subsection \<open>The specification's end-to-end scenarios\<close>

text \<open>
  Concrete inputs, after section 8 of the specification: T3 = 1000 ms, N3 = 3, message
  types 32 to 35 (Create Session and Modify Bearer, request and response), every
  message with a sender F-TEID and one bearer context, EBI 5.
\<close>

definition ex_cat :: "GtpMsgType_t \<Rightarrow> GtpMsgCategory_t" where
  "ex_cat t =
     (if t = 32 \<or> t = 34 then GTP_MSG_CAT_REQ
      else if t = 33 \<or> t = 35 then GTP_MSG_CAT_RSP else GTP_MSG_CAT_OTHER)"

definition ex_env :: "Time_t \<Rightarrow> Env" where
  "ex_env t = \<lparr>e_now = t, e_now2 = t, gtpGetMsgCategory = ex_cat, generateSeqNum = 1,
               setSenderFteid = ROK\<rparr>"

definition ex_cfg :: Config where
  "ex_cfg = \<lparr>getN3Requests = 3, getT3Timer = 1000, getDeadCallWait = 5000,
             getRemoteEp = \<lparr>ipAddr = 1, port = 2123\<rparr>\<rparr>"

definition ex_stats :: Stats where
  "ex_stats = \<lparr>GSIM_STAT_NUM_SESSIONS_CREATED = 0, GSIM_STAT_NUM_SESSIONS = 0,
               GSIM_STAT_NUM_SESSIONS_SUCC = 0, GSIM_STAT_NUM_SESSIONS_FAIL = 0\<rparr>"

definition ex_msg :: "GtpMsgType_t \<Rightarrow> GtpSeqNumber_t \<Rightarrow> GtpMsg" where
  "ex_msg ty s = \<lparr>g_type = ty, g_teid = 0, g_seqNumber = s, g_fteid = Some 7, g_ebis = [5]\<rparr>"

definition ex_job :: "JobType_t \<Rightarrow> GtpMsgType_t \<Rightarrow> Job" where
  "ex_job k ty = \<lparr>j_type = k, j_gtpMsg = Some (ex_msg ty 0), j_wait = 0, m_numSnd = 0,
                  m_numSndRetrans = 0, m_numRcv = 0, m_numRcvRetrans = 0, m_numTimeOut = 0,
                  m_numUnexp = 0\<rparr>"

definition ex_wait :: "Time_t \<Rightarrow> Job" where
  "ex_wait ms = \<lparr>j_type = JOB_TYPE_WAIT, j_gtpMsg = None, j_wait = ms, m_numSnd = 0,
                 m_numSndRetrans = 0, m_numRcv = 0, m_numRcvRetrans = 0, m_numTimeOut = 0,
                 m_numUnexp = 0\<rparr>"

text \<open>A datagram from the peer, received on connection 5.\<close>

definition ex_dgram :: "GtpMsgType_t \<Rightarrow> GtpSeqNumber_t \<Rightarrow> UdpData_t" where
  "ex_dgram ty s = \<lparr>connId = 5, peerEp = \<lparr>ipAddr = 9, port = 2123\<rparr>, buf = ex_msg ty s\<rparr>"

definition ex_session :: "Job list \<Rightarrow> World" where
  "ex_session jobs = UeSession ex_cfg jobs GTP_IF_OTHER ex_stats"

text \<open>One more run after a run that returned; a fault stays.\<close>

definition then_run ::
  "Env \<Rightarrow> UdpData_t option \<Rightarrow> fault + RETVAL \<times> World \<Rightarrow> fault + RETVAL \<times> World" where
  "then_run env arg x = (case x of Inl f \<Rightarrow> Inl f | Inr rw \<Rightarrow> run env arg (snd rw))"

text \<open>The state a run left, for naming the states of a scenario; \<open>w\<close> after a fault.\<close>

definition state_after :: "World \<Rightarrow> fault + RETVAL \<times> World \<Rightarrow> World" where
  "state_after w x = (case x of Inl f \<Rightarrow> w | Inr rw \<Rightarrow> snd rw)"

text \<open>S1 and S2: \<open>[Send CS_REQ, Recv CS_RSP]\<close>, the request sent at time 0.\<close>

definition scenario_S1 :: "Job list" where
  "scenario_S1 = [ex_job JOB_TYPE_SEND 32, ex_job JOB_TYPE_RECV 33]"

definition S1_waiting :: World where
  "S1_waiting = state_after (ex_session scenario_S1) (run (ex_env 0) None (ex_session scenario_S1))"

text \<open>S3: no response; the retransmissions at 1000, 2000 and 3000 are behind.\<close>

definition S3_retried :: World where
  "S3_retried =
     state_after S1_waiting
       (then_run (ex_env 3000) None
          (then_run (ex_env 2000) None (run (ex_env 1000) None S1_waiting)))"

text \<open>
  S4: \<open>[Recv CS_REQ, Send CS_RSP, Recv MB_REQ, Send MB_RSP]\<close>, after CS_REQ with
  sequence number 10 came at time 0 and was answered.
\<close>

definition scenario_S4 :: "Job list" where
  "scenario_S4 = [ex_job JOB_TYPE_RECV 32, ex_job JOB_TYPE_SEND 33,
                  ex_job JOB_TYPE_RECV 34, ex_job JOB_TYPE_SEND 35]"

definition S4_answered :: World where
  "S4_answered =
     state_after (ex_session scenario_S4)
       (run (ex_env 0) (Some (ex_dgram 32 10)) (ex_session scenario_S4))"

text \<open>S4 with a request whose sequence number is the last of the 24-bit space.\<close>

definition S4_answered_last_seq :: World where
  "S4_answered_last_seq =
     state_after (ex_session scenario_S4)
       (run (ex_env 0) (Some (ex_dgram 32 16777215)) (ex_session scenario_S4))"

text \<open>
  S1 followed by a wait and an unsolicited response,
  \<open>[Send CS_REQ, Recv CS_RSP, Wait 100, Send MB_RSP, Recv MB_REQ]\<close>: the response to
  CS_REQ came at 50, the wait began at 60.
\<close>

definition scenario_wait_rsp :: "Job list" where
  "scenario_wait_rsp = [ex_job JOB_TYPE_SEND 32, ex_job JOB_TYPE_RECV 33, ex_wait 100,
                        ex_job JOB_TYPE_SEND 35, ex_job JOB_TYPE_RECV 34]"

definition wait_rsp_due :: World where
  "wait_rsp_due =
     state_after (ex_session scenario_wait_rsp)
       (then_run (ex_env 60) None
          (then_run (ex_env 50) (Some (ex_dgram 33 1))
             (run (ex_env 0) None (ex_session scenario_wait_rsp))))"

text \<open>
  An answered request followed by a request of the session's own,
  \<open>[Recv CS_REQ, Send CS_RSP, Send MB_REQ, Recv MB_RSP]\<close>: CS_REQ with sequence
  number 10 came at 0 and again at 100, MB_REQ went out at 110 and waits for its
  response with T3 due at 1110.
\<close>

definition scenario_rsp_then_req :: "Job list" where
  "scenario_rsp_then_req = [ex_job JOB_TYPE_RECV 32, ex_job JOB_TYPE_SEND 33,
                            ex_job JOB_TYPE_SEND 34, ex_job JOB_TYPE_RECV 35]"

definition rsp_then_req_waiting :: World where
  "rsp_then_req_waiting =
     state_after (ex_session scenario_rsp_then_req)
       (then_run (ex_env 110) None
          (then_run (ex_env 100) (Some (ex_dgram 32 10))
             (run (ex_env 0) (Some (ex_dgram 32 10)) (ex_session scenario_rsp_then_req))))"

text \<open>S1 with a wait at its end, \<open>[Send CS_REQ, Recv CS_RSP, Wait 1000]\<close>.\<close>

definition scenario_S1_wait :: "Job list" where
  "scenario_S1_wait = [ex_job JOB_TYPE_SEND 32, ex_job JOB_TYPE_RECV 33, ex_wait 1000]"

text \<open>
  S1 while it waits for CS_RSP: the peer's own CS_REQ, with sequence number 2, came at
  20.
\<close>

definition S1_crossed :: World where
  "S1_crossed = state_after S1_waiting (run (ex_env 20) (Some (ex_dgram 32 2)) S1_waiting)"

text \<open>
  A request of the session's own followed by a procedure of the peer,
  \<open>[Send CS_REQ, Recv MB_REQ, Send MB_RSP]\<close>: CS_REQ went out at 0 with sequence
  number 1, and the peer's own CS_REQ with sequence number 7 came at 10.
\<close>

definition scenario_crossing :: "Job list" where
  "scenario_crossing = [ex_job JOB_TYPE_SEND 32, ex_job JOB_TYPE_RECV 34, ex_job JOB_TYPE_SEND 35]"

definition crossing_waiting :: World where
  "crossing_waiting =
     state_after (ex_session scenario_crossing)
       (then_run (ex_env 10) (Some (ex_dgram 32 7))
          (run (ex_env 0) None (ex_session scenario_crossing)))"

text \<open>
  A response that is sent after a wait, \<open>[Recv CS_REQ, Wait 100, Send CS_RSP]\<close>:
  CS_REQ with sequence number 10 came at 0, and the wait has begun.
\<close>

definition scenario_delayed_rsp :: "Job list" where
  "scenario_delayed_rsp = [ex_job JOB_TYPE_RECV 32, ex_wait 100, ex_job JOB_TYPE_SEND 33]"

definition delayed_rsp_pending :: World where
  "delayed_rsp_pending =
     state_after (ex_session scenario_delayed_rsp)
       (run (ex_env 0) (Some (ex_dgram 32 10)) (ex_session scenario_delayed_rsp))"

text \<open>
  An answered request followed by the same request of the session's own,
  \<open>[Recv CS_REQ, Send CS_RSP, Send CS_REQ, Recv CS_RSP]\<close>: CS_REQ with sequence
  number 10 came at 0 and was answered, and the session's CS_REQ went out at 110 with
  sequence number 1.
\<close>

definition scenario_rsp_then_same_req :: "Job list" where
  "scenario_rsp_then_same_req = [ex_job JOB_TYPE_RECV 32, ex_job JOB_TYPE_SEND 33,
                                 ex_job JOB_TYPE_SEND 32, ex_job JOB_TYPE_RECV 33]"

definition same_req_waiting :: World where
  "same_req_waiting =
     state_after (ex_session scenario_rsp_then_same_req)
       (then_run (ex_env 110) None
          (run (ex_env 0) (Some (ex_dgram 32 10)) (ex_session scenario_rsp_then_same_req)))"

section \<open>Properties\<close>

lemmas prim_defs =
  pause_def stop_def resumeTask_def incStats_def inc_CREATED_def inc_SESSIONS_def
  dec_SESSIONS_def inc_SUCC_def inc_FAIL_def sendMsg_def delete_data_def jobAt_def
  derefJob_def updJob_def inc_numSnd_def inc_numSndRetrans_def inc_numRcv_def
  inc_numRcvRetrans_def inc_numTimeOut_def inc_numUnexp_def getGtpMsg_def
  UE_SSN_FINISH_TASK_def IS_SCN_COMPLETED_def pdnTun_def getS11S4CTun_def newGtpcTun_def
  createCTun_def createPdn_def creatingPdnConnection_def createBearers_def
  decAndStoreGtpcIncMsg_def
  encGtpcOutMsg_def GTPC_MSG_CS_REQ_def GTPC_MSG_CS_RSP_def

lemmas handler_defs =
  handleCompletedTask_def handleOutReqTimeout_def handleOutReqMsg_def handleOutRspMsg_def
  handleSend_def handleWait_def isExpectedRsp_def isExpectedReq_def isPrevProcRsp_def
  isPrevProcReq_def resendPrevRsp_def handleDeadCall_def run_NULL_def handleIncReqMsg_def
  handleIncRspMsg_def handleRecv_def run_def UeSession_def nullUeProc_def

lemmas scenario_defs =
  ex_cat_def ex_env_def ex_cfg_def ex_stats_def ex_msg_def ex_job_def ex_wait_def
  ex_dgram_def ex_session_def then_run_def state_after_def scenario_S1_def S1_waiting_def
  S3_retried_def scenario_S4_def S4_answered_def S4_answered_last_seq_def
  scenario_wait_rsp_def wait_rsp_due_def scenario_rsp_then_req_def rsp_then_req_waiting_def
  scenario_S1_wait_def S1_crossed_def scenario_crossing_def crossing_waiting_def
  scenario_delayed_rsp_def delayed_rsp_pending_def scenario_rsp_then_same_req_def
  same_req_waiting_def

subsection \<open>The timer wake is the re-entrant run\<close>


subsection \<open>The retry count stays within N3\<close>





















subsection \<open>The index stays within the job sequence\<close>

lemma same_jobs_ok: "same_jobs w w' \<Longrightarrow> idx_ok w \<Longrightarrow> idx_ok w'"
  by (simp add: same_jobs_def idx_ok_def jobAt_def)

lemma same_jobs_refl [simp]: "same_jobs w w"
  by (simp add: same_jobs_def)

lemma same_jobs_trans: "same_jobs a b \<Longrightarrow> same_jobs b c \<Longrightarrow> same_jobs a c"
  by (simp add: same_jobs_def)

lemma updJob_same: "updJob p f w = Inr w' \<Longrightarrow> same_jobs w w'"
  by (auto simp: updJob_def same_jobs_def split: option.splits if_splits)

lemma creatingPdnConnection_same: "same_jobs w (snd (creatingPdnConnection w))"
  by (simp add: creatingPdnConnection_def createPdn_def createCTun_def incStats_def Let_def same_jobs_def
      split: option.splits)

lemma decAndStore_same: "decAndStoreGtpcIncMsg p m ep w = Inr w' \<Longrightarrow> same_jobs w w'"
  by (auto simp: decAndStoreGtpcIncMsg_def createBearers_def same_jobs_def
      split: sum.splits option.splits if_splits)

lemma resendPrevRsp_same: "resendPrevRsp w = Inr w' \<Longrightarrow> same_jobs w w'"
  by (auto simp: resendPrevRsp_def sendMsg_def same_jobs_def split: sum.splits option.splits
      dest!: updJob_same)

lemma handleDeadCall_same: "handleDeadCall env arg w = Inr (r, w') \<Longrightarrow> same_jobs w w'"
  by (auto simp: handleDeadCall_def delete_data_def same_jobs_def
      split: sum.splits option.splits if_splits dest!: updJob_same resendPrevRsp_same)

lemma handleOutReqTimeout_same: "handleOutReqTimeout w = Inr (r, w') \<Longrightarrow> same_jobs w w'"
  by (auto simp: handleOutReqTimeout_def delete_data_def sendMsg_def pause_def same_jobs_def
      split: if_splits option.splits sum.splits dest!: updJob_same)

lemma handleOutReqMsg_same: "handleOutReqMsg env m w = Inr (r, w') \<Longrightarrow> same_jobs w w'"
  using creatingPdnConnection_same [of w]
  by (auto simp: handleOutReqMsg_def Let_def createBearers_def sendMsg_def same_jobs_def
      split: if_splits sum.splits dest!: updJob_same)

lemma handleOutRspMsg_ok: "handleOutRspMsg env m w = Inr (r, w') \<Longrightarrow> idx_ok w \<Longrightarrow> idx_ok w'"
  by (auto simp: handleOutRspMsg_def Let_def delete_data_def handleCompletedTask_def incStats_def
        pause_def UE_SSN_FINISH_TASK_def sendMsg_def idx_ok_def jobAt_def getGtpMsg_def derefJob_def
        updJob_def
      split: if_splits sum.splits option.splits)

lemma handleSend_ok: "handleSend env w = Inr (r, w') \<Longrightarrow> idx_ok w \<Longrightarrow> idx_ok w'"
  by (auto simp: handleSend_def Let_def delete_data_def incStats_def pause_def stop_def
        idx_ok_def jobAt_def same_jobs_def
      split: if_splits sum.splits prod.splits option.splits
      dest!: updJob_same handleOutReqMsg_same handleOutReqTimeout_same
      dest: handleOutRspMsg_ok [unfolded idx_ok_def jobAt_def])

lemma handleWait_ok: "handleWait w = Inr (r, w') \<Longrightarrow> idx_ok w \<Longrightarrow> idx_ok w'"
  by (auto simp: handleWait_def pause_def UE_SSN_FINISH_TASK_def idx_ok_def jobAt_def derefJob_def
      split: sum.splits option.splits if_splits)

lemma resumed_ok: "idx_ok w \<Longrightarrow> idx_ok (resumeTask (w\<lparr>m_lastRunTime := t\<rparr>))"
  by (simp add: idx_ok_def resumeTask_def jobAt_def)

lemma run_NULL_ok: "run_NULL env w = Inr (r, w') \<Longrightarrow> idx_ok w \<Longrightarrow> idx_ok w'"
  by (auto simp: run_NULL_def Let_def
      split: sum.splits if_splits
      dest!: handleDeadCall_same
      dest: handleSend_ok handleWait_ok same_jobs_ok resumed_ok)

lemma finish_after_deref_ok:
  "idx_ok w \<Longrightarrow> getGtpMsg w (m_currTask w) = Inr t \<Longrightarrow> same_jobs w w2
   \<Longrightarrow> idx_ok (UE_SSN_FINISH_TASK (w2\<lparr>m_prevUeProc := pp\<rparr>))"
  by (auto simp: idx_ok_def jobAt_def getGtpMsg_def derefJob_def same_jobs_def UE_SSN_FINISH_TASK_def
      split: sum.splits option.splits if_splits)

lemma handleIncReqMsg_ok:
  "handleIncReqMsg env m d w = Inr (r, w') \<Longrightarrow> idx_ok w \<Longrightarrow> idx_ok w'"
proof -
  assume h: "handleIncReqMsg env m d w = Inr (r, w')" and ok: "idx_ok w"
  show ?thesis
  proof (cases "isExpectedReq w m")
    case (Inl f)
    with h show ?thesis by (simp add: handleIncReqMsg_def)
  next
    case (Inr e)
    show ?thesis
    proof (cases e)
      case False
      with h Inr ok show ?thesis
        by (auto simp: handleIncReqMsg_def split: sum.splits if_splits
            dest!: updJob_same resendPrevRsp_same dest: same_jobs_ok)
    next
      case True
      from Inr True obtain t where t: "getGtpMsg w (m_currTask w) = Inr t"
        by (auto simp: isExpectedReq_def split: sum.splits)
      from h Inr True obtain w1 pw w4 rw where
        s1: "updJob (m_currTask w) inc_numRcv w = Inr w1"
        and pw: "pw = (if g_type m = GTPC_MSG_CS_REQ then creatingPdnConnection w1 else (m_pCurrPdn w1, w1))"
        and s4: "decAndStoreGtpcIncMsg (fst pw) m (peerEp d)
                  ((snd pw)\<lparr>m_currUeProc := (m_currUeProc (snd pw))
                                 \<lparr>proc_connId := connId d, seqNumber := g_seqNumber m\<rparr>,
                             m_currReqType := g_type m\<rparr>) = Inr w4"
        and s5: "run_NULL (env\<lparr>e_now := e_now2 env\<rparr>)
                   (UE_SSN_FINISH_TASK (w4\<lparr>m_prevUeProc := (m_prevUeProc w4)
                                            \<lparr>proc_connId := proc_connId (m_currUeProc w4),
                                             seqNumber := seqNumber (m_currUeProc w4),
                                             reqType := g_type m,
                                             procTask := m_currTask w4\<rparr>\<rparr>)) = Inr rw"
        and w': "w' = snd rw"
        by (auto simp: handleIncReqMsg_def Let_def split: sum.splits)
      have a: "same_jobs w w1" using s1 by (rule updJob_same)
      have b: "same_jobs w1 (snd pw)"
        using creatingPdnConnection_same [of w1] by (simp add: pw)
      have c: "same_jobs (snd pw) w4"
        using decAndStore_same [OF s4] by (simp add: same_jobs_def)
      from a b c have "same_jobs w w4" by (blast intro: same_jobs_trans)
      from finish_after_deref_ok [OF ok t this]
      have "idx_ok (UE_SSN_FINISH_TASK (w4\<lparr>m_prevUeProc := (m_prevUeProc w4)
                                            \<lparr>proc_connId := proc_connId (m_currUeProc w4),
                                             seqNumber := seqNumber (m_currUeProc w4),
                                             reqType := g_type m,
                                             procTask := m_currTask w4\<rparr>\<rparr>))" .
      with s5 w' show ?thesis
        by (cases rw) (auto dest: run_NULL_ok)
    qed
  qed
qed

lemma FINISH_TASK_ok:
  "m_currTaskIndx w < length (m_jobSeq w) \<Longrightarrow> idx_ok (UE_SSN_FINISH_TASK w)"
  by (simp add: idx_ok_def UE_SSN_FINISH_TASK_def jobAt_def)

lemma handleCompletedTask_same: "same_jobs w (handleCompletedTask w)"
  by (simp add: same_jobs_def handleCompletedTask_def incStats_def pause_def Let_def)

lemma isExpectedRsp_in_bounds:
  "isExpectedRsp w m = Inr e \<Longrightarrow> m_currTaskIndx w + 1 < length (m_jobSeq w)"
  by (auto simp: isExpectedRsp_def jobAt_def split: if_splits)

lemma handleIncRspMsg_ok:
  "handleIncRspMsg env m d w = Inr (r, w') \<Longrightarrow> idx_ok w \<Longrightarrow> idx_ok w'"
proof -
  assume h: "handleIncRspMsg env m d w = Inr (r, w')" and ok: "idx_ok w"
  show ?thesis
  proof (cases "isExpectedRsp w m")
    case (Inl f)
    with h show ?thesis by (simp add: handleIncRspMsg_def)
  next
    case (Inr e)
    show ?thesis
    proof (cases e)
      case False
      with h Inr ok show ?thesis
        by (auto simp: handleIncRspMsg_def split: sum.splits if_splits
            dest!: updJob_same dest: same_jobs_ok)
    next
      case True
      define w2 where "w2 = UE_SSN_FINISH_TASK (w\<lparr>m_prevUeProc := (m_prevUeProc w)
                              \<lparr>proc_connId := connId d,
                               seqNumber := seqNumber (m_currUeProc w),
                               reqType := m_currReqType w,
                               rspType := g_type m,
                               procTask := m_currTask w\<rparr>\<rparr>)"
      from h Inr True obtain w3 w4 where
        s3: "updJob (m_currTask w2) inc_numRcv w2 = Inr w3"
        and s4: "decAndStoreGtpcIncMsg (m_pCurrPdn w3) m (peerEp d) w3 = Inr w4"
        and w': "w' = (let w5 = w4\<lparr>m_bitmask := m_bitmask w4 - {GSIM_UE_SSN_WAITING_FOR_RSP}\<rparr>;
                          w6 = (delete_data (sentMsg (m_currUeProc w5)) w5)
                                 \<lparr>m_currUeProc := (m_currUeProc w5)\<lparr>sentMsg := None\<rparr>\<rparr>;
                          w7 = UE_SSN_FINISH_TASK w6
                      in if IS_SCN_COMPLETED w7 then handleCompletedTask w7 else w7)"
        by (auto simp: handleIncRspMsg_def Let_def w2_def split: sum.splits)
      from isExpectedRsp_in_bounds [OF Inr]
      have b: "m_currTaskIndx w2 < length (m_jobSeq w2)"
        by (simp add: w2_def UE_SSN_FINISH_TASK_def)
      from updJob_same [OF s3] decAndStore_same [OF s4]
      have "m_currTaskIndx w4 = m_currTaskIndx w2" "length (m_jobSeq w4) = length (m_jobSeq w2)"
        by (simp_all add: same_jobs_def)
      with b have "m_currTaskIndx w4 < length (m_jobSeq w4)" by simp
      then have "idx_ok (UE_SSN_FINISH_TASK
               ((delete_data (sentMsg (m_currUeProc (w4\<lparr>m_bitmask := m_bitmask w4 - {GSIM_UE_SSN_WAITING_FOR_RSP}\<rparr>)))
                   (w4\<lparr>m_bitmask := m_bitmask w4 - {GSIM_UE_SSN_WAITING_FOR_RSP}\<rparr>))
                 \<lparr>m_currUeProc := (m_currUeProc (w4\<lparr>m_bitmask := m_bitmask w4 - {GSIM_UE_SSN_WAITING_FOR_RSP}\<rparr>))
                                     \<lparr>sentMsg := None\<rparr>\<rparr>))"
        by (intro FINISH_TASK_ok) (simp add: delete_data_def split: option.splits)
      then show ?thesis
        unfolding w' Let_def
        using handleCompletedTask_same same_jobs_ok by (auto split: if_splits)
    qed
  qed
qed

lemma handleRecv_ok: "handleRecv env d w = Inr (r, w') \<Longrightarrow> idx_ok w \<Longrightarrow> idx_ok w'"
  by (auto simp: handleRecv_def delete_data_def idx_ok_def jobAt_def
      split: sum.splits if_splits
      dest: handleIncRspMsg_ok [unfolded idx_ok_def jobAt_def]
            handleIncReqMsg_ok [unfolded idx_ok_def jobAt_def])

lemma run_ok: "run env arg w = Inr (r, w') \<Longrightarrow> idx_ok w \<Longrightarrow> idx_ok w'"
  by (auto simp: run_def Let_def
      split: sum.splits if_splits option.splits
      dest!: handleDeadCall_same
      dest: handleSend_ok handleWait_ok handleRecv_ok same_jobs_ok resumed_ok)

lemma reachable_idx_ok: "reachable cfg jobs ift st w \<Longrightarrow> idx_ok w"
  by (induction rule: reachable.induct)
     (auto simp: UeSession_def idx_ok_def jobAt_def dest: run_ok [unfolded idx_ok_def jobAt_def])

subsection \<open>What a run leaves alone\<close>

lemma updJob_procs: "updJob p f w = Inr w' \<Longrightarrow> same_procs w w'"
  by (auto simp: updJob_def same_procs_def split: option.splits if_splits)

lemma decAndStore_procs: "decAndStoreGtpcIncMsg p m ep w = Inr w' \<Longrightarrow> same_procs w w'"
  by (auto simp: decAndStoreGtpcIncMsg_def createBearers_def same_procs_def
      split: sum.splits option.splits if_splits)

lemma resendPrevRsp_procs: "resendPrevRsp w = Inr w' \<Longrightarrow> same_procs w w'"
  by (auto simp: resendPrevRsp_def sendMsg_def same_procs_def split: sum.splits option.splits
      dest!: updJob_procs)

lemma handleDeadCall_procs: "handleDeadCall env arg w = Inr (r, w') \<Longrightarrow> same_procs w w'"
  by (auto simp: handleDeadCall_def delete_data_def same_procs_def
      split: sum.splits option.splits if_splits dest!: updJob_procs resendPrevRsp_procs)

lemma handleWait_procs: "handleWait w = Inr (r, w') \<Longrightarrow> same_procs w w'"
  by (auto simp: handleWait_def pause_def UE_SSN_FINISH_TASK_def same_procs_def split: sum.splits)

lemma creatingPdnConnection_procs:
  "m_bitmask (snd (creatingPdnConnection w)) = m_bitmask w
   \<and> m_currUeProc (snd (creatingPdnConnection w)) = m_currUeProc w
   \<and> m_prevUeProc (snd (creatingPdnConnection w)) = m_prevUeProc w
   \<and> m_retryCnt (snd (creatingPdnConnection w)) = m_retryCnt w
   \<and> m_n3req (snd (creatingPdnConnection w)) = m_n3req w
   \<and> length (m_jobSeq (snd (creatingPdnConnection w))) = length (m_jobSeq w)"
  by (simp add: creatingPdnConnection_def createPdn_def createCTun_def incStats_def Let_def
      split: option.splits)

subsection \<open>The timer of a waiting session\<close>

lemma run_expired:
  assumes "GSIM_UE_SSN_SCN_COMPLETE \<notin> m_bitmask w"
    and "GSIM_UE_SSN_WAITING_FOR_RSP \<in> m_bitmask w"
    and "m_currTask w = Some i" and "i < length (m_jobSeq w)"
    and "j_type (m_jobSeq w ! i) = JOB_TYPE_SEND"
    and "m_n3req w \<le> m_retryCnt w"
  shows "run env None w =
    Inr (ROK_OVER,
         w\<lparr>m_jobSeq := (m_jobSeq w)[i := inc_numTimeOut (m_jobSeq w ! i)],
           stats := inc_FAIL (stats w),
           freed := freed w @ (case sentMsg (m_currUeProc w) of None \<Rightarrow> [] | Some d \<Rightarrow> [d]),
           m_lastRunTime := e_now env,
           m_currUeProc := (m_currUeProc w)\<lparr>sentMsg := None\<rparr>,
           m_taskState := TASK_STATE_RUNNING\<rparr>)"
  using assms
  by (simp add: run_def handleSend_def handleOutReqTimeout_def prim_defs Let_def
      split: option.splits)





















subsection \<open>A duplicate of the previous request\<close>

lemma updJob_idx: "updJob p f w = Inr w' \<Longrightarrow> m_currTaskIndx w' = m_currTaskIndx w"
  by (auto simp: updJob_def split: option.splits if_splits)

lemma handleOutRspMsg_idx:
  "handleOutRspMsg env m w = Inr (r, w') \<Longrightarrow> m_currTaskIndx w \<le> m_currTaskIndx w'"
  by (auto simp: handleOutRspMsg_def Let_def delete_data_def handleCompletedTask_def
        incStats_def pause_def UE_SSN_FINISH_TASK_def sendMsg_def
      split: if_splits sum.splits option.splits dest!: updJob_idx)

lemma handleOutReqMsg_idx:
  "handleOutReqMsg env m w = Inr (r, w') \<Longrightarrow> m_currTaskIndx w \<le> m_currTaskIndx w'"
  by (auto simp: handleOutReqMsg_def Let_def createPdn_def createCTun_def createBearers_def
        creatingPdnConnection_def incStats_def sendMsg_def
      split: if_splits sum.splits option.splits dest!: updJob_idx)

lemma handleOutReqTimeout_idx:
  "handleOutReqTimeout w = Inr (r, w') \<Longrightarrow> m_currTaskIndx w \<le> m_currTaskIndx w'"
  by (auto simp: handleOutReqTimeout_def delete_data_def sendMsg_def pause_def
      split: if_splits option.splits sum.splits dest!: updJob_idx)

lemma handleSend_idx:
  "handleSend env w = Inr (r, w') \<Longrightarrow> m_currTaskIndx w \<le> m_currTaskIndx w'"
  by (auto simp: handleSend_def Let_def delete_data_def incStats_def pause_def stop_def
      split: if_splits sum.splits prod.splits option.splits
      dest!: updJob_idx handleOutReqMsg_idx handleOutRspMsg_idx handleOutReqTimeout_idx)

lemma run_NULL_idx:
  "run_NULL env w = Inr (r, w') \<Longrightarrow> m_currTaskIndx w \<le> m_currTaskIndx w'"
  by (auto simp: run_NULL_def Let_def resumeTask_def handleDeadCall_def handleWait_def pause_def
        UE_SSN_FINISH_TASK_def
      split: sum.splits if_splits dest!: handleSend_idx)

lemma decAndStore_idx:
  "decAndStoreGtpcIncMsg p m ep w = Inr w' \<Longrightarrow> m_currTaskIndx w' = m_currTaskIndx w"
  by (auto simp: decAndStoreGtpcIncMsg_def createBearers_def
      split: sum.splits option.splits if_splits)

lemma creatingPdnConnection_idx:
  "m_currTaskIndx (snd (creatingPdnConnection w)) = m_currTaskIndx w"
  by (simp add: creatingPdnConnection_def createPdn_def createCTun_def incStats_def Let_def
      split: option.splits)

lemma expected_req_advances:
  "isExpectedReq w m = Inr True \<Longrightarrow> handleIncReqMsg env m d w = Inr (r, w')
   \<Longrightarrow> m_currTaskIndx w < m_currTaskIndx w'"
  by (auto simp: handleIncReqMsg_def Let_def creatingPdnConnection_idx UE_SSN_FINISH_TASK_def
      split: sum.splits if_splits
      dest!: updJob_idx decAndStore_idx run_NULL_idx)

lemma classify_resumed:
  "isExpectedReq (resumeTask (w\<lparr>m_lastRunTime := t\<rparr>)) m = isExpectedReq w m"
  "isExpectedRsp (resumeTask (w\<lparr>m_lastRunTime := t\<rparr>)) m = isExpectedRsp w m"
  "isPrevProcReq (resumeTask (w\<lparr>m_lastRunTime := t\<rparr>)) m = isPrevProcReq w m"
  "isPrevProcRsp (resumeTask (w\<lparr>m_lastRunTime := t\<rparr>)) m = isPrevProcRsp w m"
  by (simp_all add: isExpectedReq_def isExpectedRsp_def isPrevProcReq_def isPrevProcRsp_def
        resumeTask_def getGtpMsg_def derefJob_def jobAt_def
      split: option.splits)

lemma handleIncReqMsg_duplicate:
  assumes "isExpectedReq w rcvdReq = Inr False" and "isPrevProcReq w rcvdReq"
    and "procTask (m_prevUeProc w) = Some k" and "k < length (m_jobSeq w)"
    and "sentMsg (m_prevUeProc w) = Some d"
  shows "handleIncReqMsg env rcvdReq rcvdData w =
           Inr (ROK, w\<lparr>m_jobSeq := (m_jobSeq w)[k := inc_numRcvRetrans (m_jobSeq w ! k)],
                       sent := sent w @ [(connId d, peerEp d, buf d)]\<rparr>)"
  using assms by (simp add: handleIncReqMsg_def resendPrevRsp_def updJob_def sendMsg_def)

lemma handleRecv_duplicate:
  assumes "gtpGetMsgCategory env (g_type (buf data)) = GTP_MSG_CAT_REQ"
    and "isExpectedReq w (buf data) = Inr False" and "isPrevProcReq w (buf data)"
    and "procTask (m_prevUeProc w) = Some k" and "k < length (m_jobSeq w)"
    and "sentMsg (m_prevUeProc w) = Some d"
  shows "handleRecv env data w =
           Inr (ROK, w\<lparr>m_jobSeq := (m_jobSeq w)[k := inc_numRcvRetrans (m_jobSeq w ! k)],
                       sent := sent w @ [(connId d, peerEp d, buf d)],
                       freed := freed w @ [data], m_wakeTime := 0\<rparr>)"
  using assms
  by (simp add: handleRecv_def handleIncReqMsg_duplicate [OF assms(2-6)] delete_data_def)

lemma run_duplicate:
  assumes "GSIM_UE_SSN_SCN_COMPLETE \<notin> m_bitmask w"
    and "gtpGetMsgCategory env (g_type (buf data)) = GTP_MSG_CAT_REQ"
    and "isExpectedReq w (buf data) = Inr False" and "isPrevProcReq w (buf data)"
    and "procTask (m_prevUeProc w) = Some k" and "k < length (m_jobSeq w)"
    and "sentMsg (m_prevUeProc w) = Some d"
  shows "run env (Some data) w =
           Inr (ROK, w\<lparr>m_jobSeq := (m_jobSeq w)[k := inc_numRcvRetrans (m_jobSeq w ! k)],
                       sent := sent w @ [(connId d, peerEp d, buf d)],
                       freed := freed w @ [data], m_lastRunTime := e_now env,
                       m_wakeTime := 0, m_taskState := TASK_STATE_RUNNING\<rparr>)"
proof -
  have "handleRecv env data (resumeTask (w\<lparr>m_lastRunTime := e_now env\<rparr>)) =
          Inr (ROK, (resumeTask (w\<lparr>m_lastRunTime := e_now env\<rparr>))
                \<lparr>m_jobSeq := (m_jobSeq (resumeTask (w\<lparr>m_lastRunTime := e_now env\<rparr>)))
                    [k := inc_numRcvRetrans
                            (m_jobSeq (resumeTask (w\<lparr>m_lastRunTime := e_now env\<rparr>)) ! k)],
                 sent := sent (resumeTask (w\<lparr>m_lastRunTime := e_now env\<rparr>))
                           @ [(connId d, peerEp d, buf d)],
                 freed := freed (resumeTask (w\<lparr>m_lastRunTime := e_now env\<rparr>)) @ [data],
                 m_wakeTime := 0\<rparr>)"
    using assms
    by (intro handleRecv_duplicate) (simp_all add: classify_resumed, simp_all add: resumeTask_def)
  with assms(1) show ?thesis
    by (simp add: run_def Let_def resumeTask_def)
qed

lemma same_procs_pto: "same_procs w w' \<Longrightarrow> prev_task_ok w \<Longrightarrow> prev_task_ok w'"
  by (simp add: same_procs_def prev_task_ok_def split: option.splits)

lemma handleOutReqTimeout_pto:
  "handleOutReqTimeout w = Inr (r, w') \<Longrightarrow> prev_task_ok w \<Longrightarrow> prev_task_ok w'"
  by (auto simp: handleOutReqTimeout_def delete_data_def sendMsg_def pause_def
        prev_task_ok_def same_procs_def
      split: if_splits option.splits sum.splits dest!: updJob_procs)

lemma handleOutReqMsg_pto:
  "handleOutReqMsg env m w = Inr (r, w') \<Longrightarrow> prev_task_ok w \<Longrightarrow> prev_task_ok w'"
  using creatingPdnConnection_procs [of w]
  by (auto simp: handleOutReqMsg_def Let_def prev_task_ok_def same_procs_def createBearers_def
        sendMsg_def
      split: if_splits sum.splits option.splits dest!: updJob_procs)

lemma handleOutRspMsg_pto:
  "handleOutRspMsg env m w = Inr (r, w') \<Longrightarrow> GSIM_UE_SSN_WAITING_FOR_RSP \<notin> m_bitmask w
   \<Longrightarrow> prev_task_ok w \<Longrightarrow> prev_task_ok w'"
  by (auto simp: handleOutRspMsg_def Let_def delete_data_def handleCompletedTask_def incStats_def
        pause_def UE_SSN_FINISH_TASK_def sendMsg_def prev_task_ok_def same_procs_def pdnTun_def
      split: if_splits sum.splits option.splits dest!: updJob_procs)

lemma handleSend_pto:
  "handleSend env w = Inr (r, w') \<Longrightarrow> prev_task_ok w \<Longrightarrow> prev_task_ok w'"
  by (auto simp: handleSend_def Let_def delete_data_def incStats_def pause_def stop_def
        prev_task_ok_def same_procs_def
      split: if_splits sum.splits prod.splits option.splits
      dest!: updJob_procs
      dest: handleOutReqTimeout_pto [unfolded prev_task_ok_def]
            handleOutReqMsg_pto [unfolded prev_task_ok_def]
            handleOutRspMsg_pto [unfolded prev_task_ok_def])

lemma resumed_pto:
  "prev_task_ok (resumeTask (w\<lparr>m_lastRunTime := t\<rparr>)) = prev_task_ok w"
  by (simp add: prev_task_ok_def resumeTask_def split: option.splits)

lemma run_NULL_pto:
  "run_NULL env w = Inr (r, w') \<Longrightarrow> prev_task_ok w \<Longrightarrow> prev_task_ok w'"
  by (auto simp: run_NULL_def Let_def resumed_pto
      split: sum.splits if_splits
      dest!: handleDeadCall_procs handleWait_procs
      dest: handleSend_pto same_procs_pto)

lemma run_NULL_pto':
  "run_NULL env w = Inr rw \<Longrightarrow> prev_task_ok w \<Longrightarrow> prev_task_ok (snd rw)"
  by (cases rw) (auto dest: run_NULL_pto)

lemma isExpectedReq_task:
  "isExpectedReq w m = Inr e \<Longrightarrow> (\<exists>k. m_currTask w = Some k \<and> k < length (m_jobSeq w))"
  by (auto simp: isExpectedReq_def getGtpMsg_def derefJob_def split: sum.splits option.splits if_splits)

lemma handleIncReqMsg_pto:
  "handleIncReqMsg env m d w = Inr (r, w') \<Longrightarrow> prev_task_ok w \<Longrightarrow> prev_task_ok w'"
proof -
  assume h: "handleIncReqMsg env m d w = Inr (r, w')" and ok: "prev_task_ok w"
  show ?thesis
  proof (cases "isExpectedReq w m = Inr True")
    case False
    with h ok show ?thesis
      by (auto simp: handleIncReqMsg_def split: sum.splits if_splits
          dest!: updJob_procs resendPrevRsp_procs dest: same_procs_pto)
  next
    case True
    from h True obtain w1 pw w4 rw where
      s1: "updJob (m_currTask w) inc_numRcv w = Inr w1"
      and pw: "pw = (if g_type m = GTPC_MSG_CS_REQ then creatingPdnConnection w1 else (m_pCurrPdn w1, w1))"
      and s4: "decAndStoreGtpcIncMsg (fst pw) m (peerEp d)
                ((snd pw)\<lparr>m_currUeProc := (m_currUeProc (snd pw))
                               \<lparr>proc_connId := connId d, seqNumber := g_seqNumber m\<rparr>,
                           m_currReqType := g_type m\<rparr>) = Inr w4"
      and s5: "run_NULL (env\<lparr>e_now := e_now2 env\<rparr>)
                 (UE_SSN_FINISH_TASK (w4\<lparr>m_prevUeProc := (m_prevUeProc w4)
                                          \<lparr>proc_connId := proc_connId (m_currUeProc w4),
                                           seqNumber := seqNumber (m_currUeProc w4),
                                           reqType := g_type m,
                                           procTask := m_currTask w4\<rparr>\<rparr>)) = Inr rw"
      and w': "w' = snd rw"
      by (auto simp: handleIncReqMsg_def Let_def split: sum.splits)
    from isExpectedReq_task [OF True] obtain k where k: "m_currTask w = Some k" "k < length (m_jobSeq w)"
      by blast
    from updJob_same [OF s1] creatingPdnConnection_same [of w1] decAndStore_same [OF s4] k
    have "m_currTask w4 = Some k" "k < length (m_jobSeq w4)"
      by (auto simp: pw same_jobs_def split: if_splits)
    then have "prev_task_ok (UE_SSN_FINISH_TASK (w4\<lparr>m_prevUeProc := (m_prevUeProc w4)
                                          \<lparr>proc_connId := proc_connId (m_currUeProc w4),
                                           seqNumber := seqNumber (m_currUeProc w4),
                                           reqType := g_type m,
                                           procTask := m_currTask w4\<rparr>\<rparr>))"
      by (simp add: prev_task_ok_def UE_SSN_FINISH_TASK_def)
    from run_NULL_pto' [OF s5 this] w' show ?thesis by simp
  qed
qed

lemma handleIncRspMsg_pto:
  "handleIncRspMsg env m d w = Inr (r, w') \<Longrightarrow> idx_ok w \<Longrightarrow> prev_task_ok w \<Longrightarrow> prev_task_ok w'"
proof -
  assume h: "handleIncRspMsg env m d w = Inr (r, w')" and iok: "idx_ok w" and ok: "prev_task_ok w"
  show ?thesis
  proof (cases "isExpectedRsp w m = Inr True")
    case False
    with h ok show ?thesis
      by (auto simp: handleIncRspMsg_def split: sum.splits if_splits
          dest!: updJob_procs dest: same_procs_pto)
  next
    case True
    from isExpectedRsp_in_bounds [OF True] iok
    have k: "m_currTask w = Some (m_currTaskIndx w)" "m_currTaskIndx w < length (m_jobSeq w)"
      by (simp_all add: idx_ok_def jobAt_def)
    with h True show ?thesis
      by (auto simp: handleIncRspMsg_def Let_def UE_SSN_FINISH_TASK_def delete_data_def
            handleCompletedTask_def incStats_def pause_def prev_task_ok_def same_procs_def
          split: sum.splits if_splits option.splits dest!: updJob_procs decAndStore_procs)
  qed
qed

lemma delete_wake_pto:
  "prev_task_ok ((delete_data p w)\<lparr>m_wakeTime := t\<rparr>) = prev_task_ok w"
  by (simp add: prev_task_ok_def delete_data_def split: option.splits)

lemma handleRecv_pto:
  "handleRecv env d w = Inr (r, w') \<Longrightarrow> idx_ok w \<Longrightarrow> prev_task_ok w \<Longrightarrow> prev_task_ok w'"
  by (auto simp: handleRecv_def delete_wake_pto
      split: sum.splits if_splits
      dest: handleIncRspMsg_pto handleIncReqMsg_pto)

lemma run_pto:
  "run env arg w = Inr (r, w') \<Longrightarrow> idx_ok w \<Longrightarrow> prev_task_ok w \<Longrightarrow> prev_task_ok w'"
  by (auto simp: run_def Let_def resumed_pto
      split: sum.splits if_splits option.splits
      dest!: handleDeadCall_procs handleWait_procs
      dest: handleSend_pto handleRecv_pto same_procs_pto resumed_ok)

lemma reachable_pto: "reachable cfg jobs ift st w \<Longrightarrow> prev_task_ok w"
proof (induction rule: reachable.induct)
  case reachable_init
  show ?case by (simp add: UeSession_def prev_task_ok_def nullUeProc_def)
next
  case (reachable_run w env arg r w')
  from reachable_run.hyps(2) reachable_idx_ok [OF reachable_run.hyps(1)] reachable_run.IH
  show ?case by (rule run_pto)
qed

lemma reachable_prev_task:
  assumes "reachable cfg jobs ift st w" and "sentMsg (m_prevUeProc w) = Some d"
  shows "\<exists>k. procTask (m_prevUeProc w) = Some k \<and> k < length (m_jobSeq w)"
  using reachable_pto [OF assms(1)] assms(2)
  by (auto simp: prev_task_ok_def split: option.splits)

text \<open>
  C5. \<^verbatim>\<open>handleIncReqMsg\<close> tests a request against the previous procedure
  (\<^verbatim>\<open>isPrevProcReq\<close>: an index above 0, the request type and the sequence number of
  \<open>m_prevUeProc\<close>) only when \<^verbatim>\<open>isExpectedReq\<close> has said no. For such a duplicate,
  when \<open>m_prevUeProc\<close> holds a response (\<open>sentMsg\<close> is not NULL), it hands that
  datagram to \<^verbatim>\<open>sendMsg\<close> with the stored connection and peer and adds one to
  \<open>m_numRcvRetrans\<close> of the job that started the procedure, which is then a job of
  the scenario in every state a session reaches; the index, the flags, the retry count,
  the procedure records and the statistics are as before. \<^verbatim>\<open>handleRecv\<close> then
  deletes the datagram and sets \<open>m_wakeTime\<close> to 0, and \<^verbatim>\<open>run\<close> has stamped
  \<open>m_lastRunTime\<close> and resumed the task before: a wake time that T3 had set is not
  kept. A request that \<^verbatim>\<open>isExpectedReq\<close> accepts is never handled as a duplicate,
  whatever \<^verbatim>\<open>isPrevProcReq\<close> says of it.
\<close>

theorem duplicate_request_resent_wake_reset:
  assumes "isPrevProcReq w (buf data)" and "sentMsg (m_prevUeProc w) = Some d"
  shows "(reachable cfg jobs ift st w \<longrightarrow>
           (\<exists>j. procTask (m_prevUeProc w) = Some j \<and> j < length (m_jobSeq w)))
       \<and> (procTask (m_prevUeProc w) = Some k \<and> k < length (m_jobSeq w)
            \<and> isExpectedReq w (buf data) = Inr False \<longrightarrow>
           handleIncReqMsg env (buf data) data w =
             Inr (ROK, w\<lparr>m_jobSeq := (m_jobSeq w)
                           [k := (m_jobSeq w ! k)
                                   \<lparr>m_numRcvRetrans := m_numRcvRetrans (m_jobSeq w ! k) + 1\<rparr>],
                         sent := sent w @ [(connId d, peerEp d, buf d)]\<rparr>))
       \<and> (procTask (m_prevUeProc w) = Some k \<and> k < length (m_jobSeq w)
            \<and> isExpectedReq w (buf data) = Inr False
            \<and> gtpGetMsgCategory env (g_type (buf data)) = GTP_MSG_CAT_REQ \<longrightarrow>
           handleRecv env data w =
             Inr (ROK, w\<lparr>m_jobSeq := (m_jobSeq w)
                           [k := (m_jobSeq w ! k)
                                   \<lparr>m_numRcvRetrans := m_numRcvRetrans (m_jobSeq w ! k) + 1\<rparr>],
                         sent := sent w @ [(connId d, peerEp d, buf d)],
                         freed := freed w @ [data], m_wakeTime := 0\<rparr>))
       \<and> (procTask (m_prevUeProc w) = Some k \<and> k < length (m_jobSeq w)
            \<and> isExpectedReq w (buf data) = Inr False
            \<and> gtpGetMsgCategory env (g_type (buf data)) = GTP_MSG_CAT_REQ
            \<and> GSIM_UE_SSN_SCN_COMPLETE \<notin> m_bitmask w \<longrightarrow>
           run env (Some data) w =
             Inr (ROK, w\<lparr>m_jobSeq := (m_jobSeq w)
                           [k := (m_jobSeq w ! k)
                                   \<lparr>m_numRcvRetrans := m_numRcvRetrans (m_jobSeq w ! k) + 1\<rparr>],
                         sent := sent w @ [(connId d, peerEp d, buf d)],
                         freed := freed w @ [data], m_lastRunTime := e_now env,
                         m_wakeTime := 0, m_taskState := TASK_STATE_RUNNING\<rparr>))
       \<and> (isExpectedReq w (buf data) = Inr True \<longrightarrow>
           handleIncReqMsg env (buf data) data w \<noteq>
             Inr (ROK, w\<lparr>m_jobSeq := (m_jobSeq w)
                           [k := (m_jobSeq w ! k)
                                   \<lparr>m_numRcvRetrans := m_numRcvRetrans (m_jobSeq w ! k) + 1\<rparr>],
                         sent := sent w @ [(connId d, peerEp d, buf d)]\<rparr>))"
proof (intro conjI impI)
  assume "reachable cfg jobs ift st w"
  from reachable_prev_task [OF this assms(2)]
  show "\<exists>j. procTask (m_prevUeProc w) = Some j \<and> j < length (m_jobSeq w)" .
next
  assume "procTask (m_prevUeProc w) = Some k \<and> k < length (m_jobSeq w)
            \<and> isExpectedReq w (buf data) = Inr False"
  with assms show "handleIncReqMsg env (buf data) data w =
             Inr (ROK, w\<lparr>m_jobSeq := (m_jobSeq w)
                           [k := (m_jobSeq w ! k)
                                   \<lparr>m_numRcvRetrans := m_numRcvRetrans (m_jobSeq w ! k) + 1\<rparr>],
                         sent := sent w @ [(connId d, peerEp d, buf d)]\<rparr>)"
    by (simp add: handleIncReqMsg_duplicate inc_numRcvRetrans_def)
next
  assume "procTask (m_prevUeProc w) = Some k \<and> k < length (m_jobSeq w)
            \<and> isExpectedReq w (buf data) = Inr False
            \<and> gtpGetMsgCategory env (g_type (buf data)) = GTP_MSG_CAT_REQ"
  with assms show "handleRecv env data w =
             Inr (ROK, w\<lparr>m_jobSeq := (m_jobSeq w)
                           [k := (m_jobSeq w ! k)
                                   \<lparr>m_numRcvRetrans := m_numRcvRetrans (m_jobSeq w ! k) + 1\<rparr>],
                         sent := sent w @ [(connId d, peerEp d, buf d)],
                         freed := freed w @ [data], m_wakeTime := 0\<rparr>)"
    by (simp add: handleRecv_duplicate inc_numRcvRetrans_def)
next
  assume "procTask (m_prevUeProc w) = Some k \<and> k < length (m_jobSeq w)
            \<and> isExpectedReq w (buf data) = Inr False
            \<and> gtpGetMsgCategory env (g_type (buf data)) = GTP_MSG_CAT_REQ
            \<and> GSIM_UE_SSN_SCN_COMPLETE \<notin> m_bitmask w"
  with assms show "run env (Some data) w =
             Inr (ROK, w\<lparr>m_jobSeq := (m_jobSeq w)
                           [k := (m_jobSeq w ! k)
                                   \<lparr>m_numRcvRetrans := m_numRcvRetrans (m_jobSeq w ! k) + 1\<rparr>],
                         sent := sent w @ [(connId d, peerEp d, buf d)],
                         freed := freed w @ [data], m_lastRunTime := e_now env,
                         m_wakeTime := 0, m_taskState := TASK_STATE_RUNNING\<rparr>)"
    by (simp add: run_duplicate inc_numRcvRetrans_def)
next
  assume e: "isExpectedReq w (buf data) = Inr True"
  show "handleIncReqMsg env (buf data) data w \<noteq>
             Inr (ROK, w\<lparr>m_jobSeq := (m_jobSeq w)
                           [k := (m_jobSeq w ! k)
                                   \<lparr>m_numRcvRetrans := m_numRcvRetrans (m_jobSeq w ! k) + 1\<rparr>],
                         sent := sent w @ [(connId d, peerEp d, buf d)]\<rparr>)"
  proof
    assume "handleIncReqMsg env (buf data) data w =
             Inr (ROK, w\<lparr>m_jobSeq := (m_jobSeq w)
                           [k := (m_jobSeq w ! k)
                                   \<lparr>m_numRcvRetrans := m_numRcvRetrans (m_jobSeq w ! k) + 1\<rparr>],
                         sent := sent w @ [(connId d, peerEp d, buf d)]\<rparr>)"
    from expected_req_advances [OF e this] show False by simp
  qed
qed

lemma S4_answered_reachable:
  "reachable ex_cfg scenario_S4 GTP_IF_OTHER ex_stats S4_answered"
proof -
  have "run (ex_env 0) (Some (ex_dgram 32 10)) (UeSession ex_cfg scenario_S4 GTP_IF_OTHER ex_stats)
          = Inr (ROK, S4_answered)"
    by (simp add: scenario_defs handler_defs prim_defs Let_def)
  from reachable_run [OF reachable_init this] show ?thesis .
qed

text \<open>
  With MB_REQ sent at 110 and T3 due at 1110, the peer sends CS_REQ with sequence number
  10 once more at 500: CS_RSP goes out again, the session still waits for MB_RSP, and
  its wake time is 0. And when the response is sent after a wait, the peer's CS_REQ
  that comes again during the wait passes \<^verbatim>\<open>isPrevProcReq\<close> while no response is
  stored yet: \<^verbatim>\<open>handleIncReqMsg\<close> reads \<^verbatim>\<open>m_prevUeProc.sentMsg->buf\<close> through
  NULL.
\<close>

theorem duplicate_request_counterexample:
  "GSIM_UE_SSN_WAITING_FOR_RSP \<in> m_bitmask rsp_then_req_waiting
   \<and> m_wakeTime rsp_then_req_waiting = 1110
   \<and> isExpectedReq rsp_then_req_waiting (ex_msg 32 10) = Inr False
   \<and> isPrevProcReq rsp_then_req_waiting (ex_msg 32 10)
   \<and> (case run (ex_env 500) (Some (ex_dgram 32 10)) rsp_then_req_waiting of
        Inl f \<Rightarrow> False
      | Inr rw \<Rightarrow>
          fst rw = ROK
          \<and> last (sent (snd rw)) = (5, \<lparr>ipAddr = 9, port = 2123\<rparr>, (ex_msg 33 10)\<lparr>g_teid := 7\<rparr>)
          \<and> m_numRcvRetrans (m_jobSeq (snd rw) ! 0) = 2
          \<and> m_currTaskIndx (snd rw) = 2
          \<and> GSIM_UE_SSN_WAITING_FOR_RSP \<in> m_bitmask (snd rw)
          \<and> m_wakeTime (snd rw) = 0)
   \<and> m_currTaskIndx delayed_rsp_pending = 2
   \<and> j_type (m_jobSeq delayed_rsp_pending ! 2) = JOB_TYPE_SEND
   \<and> isExpectedReq delayed_rsp_pending (ex_msg 32 10) = Inr False
   \<and> isPrevProcReq delayed_rsp_pending (ex_msg 32 10)
   \<and> procTask (m_prevUeProc delayed_rsp_pending) = Some 0
   \<and> sentMsg (m_prevUeProc delayed_rsp_pending) = None
   \<and> run (ex_env 50) (Some (ex_dgram 32 10)) delayed_rsp_pending = Inl NullSentMsg"
  by (simp add: scenario_defs handler_defs prim_defs Let_def)

text \<open>
  S4: the peer sends CS_REQ with sequence number 10 again at 500. And a CS_REQ with
  sequence number 10 that comes while the session's own CS_REQ, with sequence number 1,
  waits for its response: it matches the previous procedure, is accepted as expected,
  and nothing is resent.
\<close>

theorem duplicate_request_witness:
  "isPrevProcReq S4_answered (ex_msg 32 10)
   \<and> isExpectedReq S4_answered (ex_msg 32 10) = Inr False
   \<and> sentMsg (m_prevUeProc S4_answered)
       = Some \<lparr>connId = 5, peerEp = \<lparr>ipAddr = 9, port = 2123\<rparr>,
               buf = (ex_msg 33 10)\<lparr>g_teid := 7\<rparr>\<rparr>
   \<and> reachable ex_cfg scenario_S4 GTP_IF_OTHER ex_stats S4_answered
   \<and> procTask (m_prevUeProc S4_answered) = Some 0
   \<and> m_numRcvRetrans (m_jobSeq S4_answered ! 0) = 0
   \<and> (case handleIncReqMsg (ex_env 500) (ex_msg 32 10) (ex_dgram 32 10) S4_answered of
        Inl f \<Rightarrow> False
      | Inr rw \<Rightarrow>
          fst rw = ROK
          \<and> sent (snd rw) = [(5, \<lparr>ipAddr = 9, port = 2123\<rparr>, (ex_msg 33 10)\<lparr>g_teid := 7\<rparr>),
                             (5, \<lparr>ipAddr = 9, port = 2123\<rparr>, (ex_msg 33 10)\<lparr>g_teid := 7\<rparr>)]
          \<and> m_numRcvRetrans (m_jobSeq (snd rw) ! 0) = 1
          \<and> m_currTaskIndx (snd rw) = 2)
   \<and> (case run (ex_env 500) (Some (ex_dgram 32 10)) S4_answered of
        Inl f \<Rightarrow> False
      | Inr rw \<Rightarrow>
          m_numRcvRetrans (m_jobSeq (snd rw) ! 0) = 1 \<and> m_wakeTime (snd rw) = 0
          \<and> m_taskState (snd rw) = TASK_STATE_RUNNING)
   \<and> isPrevProcReq same_req_waiting (ex_msg 32 10)
   \<and> isExpectedReq same_req_waiting (ex_msg 32 10) = Inr True
   \<and> (case handleIncReqMsg (ex_env 500) (ex_msg 32 10) (ex_dgram 32 10) same_req_waiting of
        Inl f \<Rightarrow> False
      | Inr rw \<Rightarrow>
          m_currTaskIndx same_req_waiting = 2 \<and> m_currTaskIndx (snd rw) = 3
          \<and> m_numRcvRetrans (m_jobSeq (snd rw) ! 0) = 0
          \<and> sent (snd rw) = sent same_req_waiting)"
  using duplicate_request_resent_wake_reset [of S4_answered "ex_dgram 32 10"
          "\<lparr>connId = 5, peerEp = \<lparr>ipAddr = 9, port = 2123\<rparr>, buf = (ex_msg 33 10)\<lparr>g_teid := 7\<rparr>\<rparr>"
          ex_cfg scenario_S4 GTP_IF_OTHER ex_stats 0 "ex_env 500"]
        duplicate_request_resent_wake_reset [of same_req_waiting "ex_dgram 32 10"
          "\<lparr>connId = 5, peerEp = \<lparr>ipAddr = 9, port = 2123\<rparr>, buf = (ex_msg 33 10)\<lparr>g_teid := 7\<rparr>\<rparr>"
          ex_cfg scenario_rsp_then_same_req GTP_IF_OTHER ex_stats 0 "ex_env 500"]
        S4_answered_reachable
  by (simp add: scenario_defs handler_defs prim_defs Let_def)

subsection \<open>An unexpected message\<close>

lemma handleRecv_unexpected:
  assumes "m_currTask w = Some i" and "i < length (m_jobSeq w)"
    and "gtpGetMsgCategory env (g_type (buf data)) = GTP_MSG_CAT_REQ
           \<and> isExpectedReq w (buf data) = Inr False \<and> \<not> isPrevProcReq w (buf data)
         \<or> gtpGetMsgCategory env (g_type (buf data)) = GTP_MSG_CAT_RSP
           \<and> isExpectedRsp w (buf data) = Inr False \<and> \<not> isPrevProcRsp w (buf data)"
  shows "handleRecv env data w =
           Inr (ROK, w\<lparr>m_jobSeq := (m_jobSeq w)[i := inc_numUnexp (m_jobSeq w ! i)],
                       freed := freed w @ [data], m_wakeTime := 0\<rparr>)"
  using assms
  by (auto simp: handleRecv_def handleIncReqMsg_def handleIncRspMsg_def updJob_def delete_data_def)

text \<open>
  C6. A request or response that is neither expected nor a duplicate of the previous
  procedure: \<^verbatim>\<open>handleRecv\<close> increments \<open>m_numUnexp\<close> of the current job, deletes
  the datagram and sets \<open>m_wakeTime\<close> to 0; \<^verbatim>\<open>run\<close> has stamped
  \<open>m_lastRunTime\<close> and resumed the task before. Nothing else changes: the index,
  the flags (a session that waits for a response still does), the retry count, the
  stored datagrams and the statistics are as before. The wake time that T3 had set is not
  kept.
\<close>

theorem unexpected_message_counted_wake_reset:
  assumes "m_currTask w = Some i" and "i < length (m_jobSeq w)"
    and "gtpGetMsgCategory env (g_type (buf data)) = GTP_MSG_CAT_REQ
           \<and> isExpectedReq w (buf data) = Inr False \<and> \<not> isPrevProcReq w (buf data)
         \<or> gtpGetMsgCategory env (g_type (buf data)) = GTP_MSG_CAT_RSP
           \<and> isExpectedRsp w (buf data) = Inr False \<and> \<not> isPrevProcRsp w (buf data)"
  shows "handleRecv env data w =
           Inr (ROK, w\<lparr>m_jobSeq := (m_jobSeq w)[i := inc_numUnexp (m_jobSeq w ! i)],
                       freed := freed w @ [data], m_wakeTime := 0\<rparr>)
       \<and> (GSIM_UE_SSN_SCN_COMPLETE \<notin> m_bitmask w \<longrightarrow>
            run env (Some data) w =
              Inr (ROK, w\<lparr>m_jobSeq := (m_jobSeq w)[i := inc_numUnexp (m_jobSeq w ! i)],
                          freed := freed w @ [data], m_lastRunTime := e_now env,
                          m_wakeTime := 0, m_taskState := TASK_STATE_RUNNING\<rparr>))"
proof (intro conjI impI)
  show "handleRecv env data w =
           Inr (ROK, w\<lparr>m_jobSeq := (m_jobSeq w)[i := inc_numUnexp (m_jobSeq w ! i)],
                       freed := freed w @ [data], m_wakeTime := 0\<rparr>)"
    using assms by (rule handleRecv_unexpected)
next
  assume nc: "GSIM_UE_SSN_SCN_COMPLETE \<notin> m_bitmask w"
  have "handleRecv env data (resumeTask (w\<lparr>m_lastRunTime := e_now env\<rparr>)) =
          Inr (ROK, (resumeTask (w\<lparr>m_lastRunTime := e_now env\<rparr>))
                \<lparr>m_jobSeq := (m_jobSeq (resumeTask (w\<lparr>m_lastRunTime := e_now env\<rparr>)))
                    [i := inc_numUnexp (m_jobSeq (resumeTask (w\<lparr>m_lastRunTime := e_now env\<rparr>)) ! i)],
                 freed := freed (resumeTask (w\<lparr>m_lastRunTime := e_now env\<rparr>)) @ [data],
                 m_wakeTime := 0\<rparr>)"
    using assms by (intro handleRecv_unexpected) (simp_all add: classify_resumed, simp_all add: resumeTask_def)
  with nc show "run env (Some data) w =
              Inr (ROK, w\<lparr>m_jobSeq := (m_jobSeq w)[i := inc_numUnexp (m_jobSeq w ! i)],
                          freed := freed w @ [data], m_lastRunTime := e_now env,
                          m_wakeTime := 0, m_taskState := TASK_STATE_RUNNING\<rparr>)"
    by (simp add: run_def Let_def resumeTask_def)
qed

text \<open>
  S5: while the session of S1 waits for CS_RSP, with its T3 wake at 1000, an unrelated
  MB_RSP arrives at 50. The session still waits, and its wake time is 0.
\<close>

theorem unexpected_message_counterexample:
  "GSIM_UE_SSN_WAITING_FOR_RSP \<in> m_bitmask S1_waiting
   \<and> m_wakeTime S1_waiting = 1000
   \<and> isExpectedRsp S1_waiting (ex_msg 35 1) = Inr False
   \<and> \<not> isPrevProcRsp S1_waiting (ex_msg 35 1)
   \<and> (case run (ex_env 50) (Some (ex_dgram 35 1)) S1_waiting of
        Inl f \<Rightarrow> False
      | Inr rw \<Rightarrow>
          m_numUnexp (m_jobSeq (snd rw) ! 0) = 1
          \<and> GSIM_UE_SSN_WAITING_FOR_RSP \<in> m_bitmask (snd rw)
          \<and> m_wakeTime (snd rw) = 0)"
  by (simp add: scenario_defs handler_defs prim_defs Let_def)

text \<open>The same message, through \<^verbatim>\<open>handleRecv\<close>.\<close>

theorem unexpected_message_witness:
  "m_currTask S1_waiting = Some 0
   \<and> ex_cat (g_type (buf (ex_dgram 35 1))) = GTP_MSG_CAT_RSP
   \<and> handleRecv (ex_env 50) (ex_dgram 35 1) S1_waiting =
       Inr (ROK, S1_waiting\<lparr>m_jobSeq := (m_jobSeq S1_waiting)
                                [0 := inc_numUnexp (m_jobSeq S1_waiting ! 0)],
                            freed := freed S1_waiting @ [ex_dgram 35 1], m_wakeTime := 0\<rparr>)"
  using unexpected_message_counted_wake_reset [of S1_waiting 0 "ex_env 50" "ex_dgram 35 1"]
  by (simp add: scenario_defs handler_defs prim_defs Let_def)

subsection \<open>Sending a response\<close>

text \<open>
  C1. \<^verbatim>\<open>handleSend\<close> on a job whose template is of response category, with
  \<^verbatim>\<open>WAITING_FOR_RSP\<close> clear and the message encoded: the datagram goes to
  \<^verbatim>\<open>sendMsg\<close> over the connection of \<open>m_currUeProc\<close> and the peer of the current
  PDN's tunnel, \<open>m_numSnd\<close> of the job is incremented, the datagram replaces
  \<open>sentMsg\<close> of \<open>m_prevUeProc\<close> (the old one is deleted) and its type becomes
  \<open>rspType\<close> there, and the index advances. When this was the last job the
  completion runs (\<^verbatim>\<open>handleCompletedTask\<close>). In both cases \<^verbatim>\<open>handleSend\<close> then
  calls \<^verbatim>\<open>stop()\<close>: the task is left stopped, and when the scenario is not complete
  \<open>m_wakeTime\<close> is as it was. The other members of \<open>m_prevUeProc\<close> are not
  assigned here.
\<close>

theorem response_sent_then_task_stopped:
  assumes "GSIM_UE_SSN_WAITING_FOR_RSP \<notin> m_bitmask w"
    and "m_currTask w = Some (m_currTaskIndx w)" and "m_currTaskIndx w < length (m_jobSeq w)"
    and "j_gtpMsg (m_jobSeq w ! m_currTaskIndx w) = Some t"
    and "gtpGetMsgCategory env (g_type t) = GTP_MSG_CAT_RSP"
    and "encGtpcOutMsg env (m_pCurrPdn w) t w = Inr b"
    and "pdnTun w (m_pCurrPdn w) = Inr tn"
  shows "handleSend env w = Inr (ROK,
     (if m_currTaskIndx w + 1 = length (m_jobSeq w)
      then w\<lparr>m_jobSeq := (m_jobSeq w)[m_currTaskIndx w := inc_numSnd (m_jobSeq w ! m_currTaskIndx w)],
             stats := dec_SESSIONS (inc_SUCC (stats w)),
             sent := sent w @ [(proc_connId (m_currUeProc w), tun_peerEp (m_tuns w ! tn), b)],
             freed := freed w @ (case sentMsg (m_prevUeProc w) of None \<Rightarrow> [] | Some d \<Rightarrow> [d]),
             m_currTaskIndx := m_currTaskIndx w + 1,
             m_currTask := None,
             m_bitmask := insert GSIM_UE_SSN_SCN_COMPLETE (m_bitmask w),
             m_wakeTime := m_lastRunTime w + m_deadCallWait w,
             m_prevUeProc := (m_prevUeProc w)
               \<lparr>sentMsg := Some \<lparr>connId = proc_connId (m_currUeProc w),
                                 peerEp = tun_peerEp (m_tuns w ! tn), buf = b\<rparr>,
                rspType := g_type t\<rparr>,
             m_taskState := TASK_STATE_STOPPED\<rparr>
      else w\<lparr>m_jobSeq := (m_jobSeq w)[m_currTaskIndx w := inc_numSnd (m_jobSeq w ! m_currTaskIndx w)],
             sent := sent w @ [(proc_connId (m_currUeProc w), tun_peerEp (m_tuns w ! tn), b)],
             freed := freed w @ (case sentMsg (m_prevUeProc w) of None \<Rightarrow> [] | Some d \<Rightarrow> [d]),
             m_currTaskIndx := m_currTaskIndx w + 1,
             m_currTask := Some (m_currTaskIndx w + 1),
             m_prevUeProc := (m_prevUeProc w)
               \<lparr>sentMsg := Some \<lparr>connId = proc_connId (m_currUeProc w),
                                 peerEp = tun_peerEp (m_tuns w ! tn), buf = b\<rparr>,
                rspType := g_type t\<rparr>,
             m_taskState := TASK_STATE_STOPPED\<rparr>))"
  using assms
  by (simp add: handleSend_def handleOutRspMsg_def getGtpMsg_def derefJob_def updJob_def sendMsg_def
        delete_data_def UE_SSN_FINISH_TASK_def IS_SCN_COMPLETED_def jobAt_def handleCompletedTask_def
        incStats_def pause_def stop_def Let_def split: option.splits)

text \<open>
  S4: CS_REQ arrives, CS_RSP is sent from the re-entered \<^verbatim>\<open>run\<close>, two jobs are
  left, and the task is stopped. And the timer-driven response of
  \<open>scenario_wait_rsp\<close>: the task is stopped with its wake time still 160, and the
  connection of \<open>m_prevUeProc\<close> is not that of \<open>m_currUeProc\<close>.
\<close>

theorem response_sent_counterexample:
  "(case run (ex_env 0) (Some (ex_dgram 32 10)) (ex_session scenario_S4) of
      Inl f \<Rightarrow> False
    | Inr rw \<Rightarrow>
        fst rw = ROK
        \<and> sent (snd rw) = [(5, \<lparr>ipAddr = 9, port = 2123\<rparr>, (ex_msg 33 10)\<lparr>g_teid := 7\<rparr>)]
        \<and> m_numSnd (m_jobSeq (snd rw) ! 1) = 1
        \<and> m_currTaskIndx (snd rw) = 2
        \<and> \<not> IS_SCN_COMPLETED (snd rw)
        \<and> m_taskState (snd rw) = TASK_STATE_STOPPED)
   \<and> j_type (m_jobSeq wait_rsp_due ! m_currTaskIndx wait_rsp_due) = JOB_TYPE_SEND
   \<and> GSIM_UE_SSN_WAITING_FOR_RSP \<notin> m_bitmask wait_rsp_due
   \<and> m_wakeTime wait_rsp_due = 160
   \<and> (case handleSend (ex_env 160) wait_rsp_due of
        Inl f \<Rightarrow> False
      | Inr rw \<Rightarrow>
          fst rw = ROK
          \<and> m_numSnd (m_jobSeq (snd rw) ! 3) = 1
          \<and> \<not> IS_SCN_COMPLETED (snd rw)
          \<and> m_taskState (snd rw) = TASK_STATE_STOPPED
          \<and> m_wakeTime (snd rw) = 160
          \<and> proc_connId (m_currUeProc (snd rw)) = 0
          \<and> proc_connId (m_prevUeProc (snd rw)) = 5)"
  by (simp add: scenario_defs handler_defs prim_defs Let_def)

text \<open>The timer-driven response of \<open>scenario_wait_rsp\<close>.\<close>

theorem response_sent_witness:
  "GSIM_UE_SSN_WAITING_FOR_RSP \<notin> m_bitmask wait_rsp_due
   \<and> j_gtpMsg (m_jobSeq wait_rsp_due ! m_currTaskIndx wait_rsp_due) = Some (ex_msg 35 0)
   \<and> ex_cat (g_type (ex_msg 35 0)) = GTP_MSG_CAT_RSP
   \<and> (case handleSend (ex_env 160) wait_rsp_due of
        Inl f \<Rightarrow> False
      | Inr rw \<Rightarrow>
          fst rw = ROK
          \<and> m_numSnd (m_jobSeq (snd rw) ! 3) = 1
          \<and> sentMsg (m_prevUeProc (snd rw)) =
              Some \<lparr>connId = 0, peerEp = \<lparr>ipAddr = 9, port = 2123\<rparr>,
                    buf = (ex_msg 35 1)\<lparr>g_teid := 7\<rparr>\<rparr>
          \<and> m_currTaskIndx (snd rw) = 4
          \<and> m_taskState (snd rw) = TASK_STATE_STOPPED)"
  using response_sent_then_task_stopped [of wait_rsp_due "ex_msg 35 0" "ex_env 160"
          "(ex_msg 35 1)\<lparr>g_teid := 7\<rparr>" 0]
  by (simp add: scenario_defs handler_defs prim_defs Let_def)

subsection \<open>The expected request\<close>

text \<open>
  C4. \<^verbatim>\<open>isExpectedReq\<close> says yes exactly when the template of the current job has
  the type of the incoming request and \<open>seqNumber\<close> of \<open>m_currUeProc\<close> is below
  the incoming sequence number as unsigned integers. The kind of the job is not looked
  at, and the comparison does not wrap.
\<close>

theorem expected_request_plain_comparison:
  assumes "m_currTask w = Some i" and "i < length (m_jobSeq w)"
    and "j_gtpMsg (m_jobSeq w ! i) = Some t"
  shows "isExpectedReq w reqMsg =
           Inr (g_type t = g_type reqMsg
                \<and> unat (seqNumber (m_currUeProc w)) < unat (g_seqNumber reqMsg))"
  using assms
  by (simp add: isExpectedReq_def getGtpMsg_def derefJob_def word_less_nat_alt)

text \<open>
  After a request with the last 24-bit sequence number, a request with sequence number 1
  for the \<^verbatim>\<open>Recv\<close> job is later in the specification's order and is not expected
  by the code; and in S1 a CS_REQ with a higher sequence number is expected by the code
  while the current job is the \<^verbatim>\<open>Send\<close> of CS_REQ.
\<close>

theorem expected_request_counterexample:
  "j_type (m_jobSeq S4_answered_last_seq ! m_currTaskIndx S4_answered_last_seq) = JOB_TYPE_RECV
   \<and> seqNumber (m_currUeProc S4_answered_last_seq) = 16777215
   \<and> spec_isExpectedReq S4_answered_last_seq (ex_msg 34 1)
   \<and> isExpectedReq S4_answered_last_seq (ex_msg 34 1) = Inr False
   \<and> j_type (m_jobSeq S1_waiting ! m_currTaskIndx S1_waiting) = JOB_TYPE_SEND
   \<and> \<not> spec_isExpectedReq S1_waiting (ex_msg 32 2)
   \<and> isExpectedReq S1_waiting (ex_msg 32 2) = Inr True"
  by (simp add: spec_isExpectedReq_def spec_seqLater_def scenario_defs handler_defs prim_defs Let_def)

text \<open>S4 at its start: CS_REQ is expected, MB_REQ is not.\<close>

theorem expected_request_witness:
  "m_currTask (ex_session scenario_S4) = Some 0
   \<and> j_gtpMsg (m_jobSeq (ex_session scenario_S4) ! 0) = Some (ex_msg 32 0)
   \<and> isExpectedReq (ex_session scenario_S4) (ex_msg 32 10) = Inr True
   \<and> isExpectedReq (ex_session scenario_S4) (ex_msg 34 10) = Inr False"
  using expected_request_plain_comparison [of "ex_session scenario_S4" 0 "ex_msg 32 0" "ex_msg 32 10"]
        expected_request_plain_comparison [of "ex_session scenario_S4" 0 "ex_msg 32 0" "ex_msg 34 10"]
  by (simp add: scenario_defs handler_defs prim_defs Let_def)

subsection \<open>The expected response\<close>



















subsection \<open>Completion, the counters and reads of the job sequence\<close>

text \<open>
  PDN creation and completion keep the counters balanced; counting a failure does not.
\<close>

lemma creatingPdnConnection_balanced:
  "stats_balanced (stats w) \<Longrightarrow> stats_balanced (stats (snd (creatingPdnConnection w)))"
  by (simp add: stats_balanced_def creatingPdnConnection_def createPdn_def createCTun_def
        incStats_def inc_CREATED_def inc_SESSIONS_def Let_def split: option.splits)

lemma handleCompletedTask_balanced:
  "stats_balanced (stats w) \<Longrightarrow> stats_balanced (stats (handleCompletedTask w))"
  by (simp add: stats_balanced_def handleCompletedTask_def incStats_def inc_SUCC_def
        dec_SESSIONS_def pause_def Let_def)

lemma inc_FAIL_unbalanced:
  "stats_balanced s \<Longrightarrow> \<not> stats_balanced (inc_FAIL s)"
  by (simp add: stats_balanced_def inc_FAIL_def)

lemma run_expired_unbalanced:
  assumes "GSIM_UE_SSN_SCN_COMPLETE \<notin> m_bitmask w"
    and "GSIM_UE_SSN_WAITING_FOR_RSP \<in> m_bitmask w"
    and "m_currTask w = Some i" and "i < length (m_jobSeq w)"
    and "j_type (m_jobSeq w ! i) = JOB_TYPE_SEND"
    and "m_n3req w \<le> m_retryCnt w"
    and "stats_balanced (stats w)"
  shows "\<exists>w'. run env None w = Inr (ROK_OVER, w') \<and> \<not> stats_balanced (stats w')"
  using assms by (simp add: run_expired inc_FAIL_unbalanced)

text \<open>When the two reads of the job sequence are past its end.\<close>

lemma FINISH_TASK_past_end:
  "(m_currTask (UE_SSN_FINISH_TASK w) = None) = (length (m_jobSeq w) \<le> m_currTaskIndx w + 1)"
  by (simp add: UE_SSN_FINISH_TASK_def jobAt_def)

lemma isExpectedRsp_past_end:
  "(isExpectedRsp w m = Inl JobIndexOutOfRange) = (length (m_jobSeq w) \<le> m_currTaskIndx w + 1)"
  by (simp add: isExpectedRsp_def jobAt_def getGtpMsg_def derefJob_def split: option.splits)

text \<open>
  C7. \<^verbatim>\<open>handleWait\<close> advances the index and does not test
  \<^verbatim>\<open>IS_SCN_COMPLETED\<close>, as \<^verbatim>\<open>handleOutRspMsg\<close> and \<^verbatim>\<open>handleIncRspMsg\<close> do.
  With S1 followed by a wait, the run that starts the wait leaves the index at the
  length of the job sequence and \<^verbatim>\<open>SCN_COMPLETE\<close> clear.
\<close>

theorem wait_at_end_leaves_scenario_unmarked:
  "(case then_run (ex_env 60) None
           (then_run (ex_env 50) (Some (ex_dgram 33 1))
              (run (ex_env 0) None (ex_session scenario_S1_wait))) of
      Inl f \<Rightarrow> False
    | Inr rw \<Rightarrow>
        fst rw = ROK
        \<and> m_currTaskIndx (snd rw) = length (m_jobSeq (snd rw))
        \<and> GSIM_UE_SSN_SCN_COMPLETE \<notin> m_bitmask (snd rw)
        \<and> m_currTask (snd rw) = None)"
  by (simp add: scenario_defs handler_defs prim_defs Let_def)

text \<open>
  C8. The failure path of \<^verbatim>\<open>handleSend\<close> increments the failed sessions and leaves
  the sessions in flight as they are (\<^verbatim>\<open>handleCompletedTask\<close> decrements them). At
  the end of S3: one session created, none succeeded, one failed, one in flight.
\<close>

theorem failed_session_stays_counted_in_flight:
  "(case run (ex_env 4000) None S3_retried of
      Inl f \<Rightarrow> False
    | Inr rw \<Rightarrow>
        fst rw = ROK_OVER
        \<and> GSIM_STAT_NUM_SESSIONS_CREATED (stats (snd rw)) = 1
        \<and> GSIM_STAT_NUM_SESSIONS_SUCC (stats (snd rw)) = 0
        \<and> GSIM_STAT_NUM_SESSIONS_FAIL (stats (snd rw)) = 1
        \<and> GSIM_STAT_NUM_SESSIONS (stats (snd rw)) = 1
        \<and> GSIM_STAT_NUM_SESSIONS_CREATED (stats (snd rw))
            \<noteq> GSIM_STAT_NUM_SESSIONS_SUCC (stats (snd rw))
              + GSIM_STAT_NUM_SESSIONS_FAIL (stats (snd rw))
              + GSIM_STAT_NUM_SESSIONS (stats (snd rw)))"
  by (simp add: scenario_defs handler_defs prim_defs Let_def)

text \<open>
  C9. \<^verbatim>\<open>UE_SSN_FINISH_TASK\<close> reads \<^verbatim>\<open>m_jobSeq\<close> at the incremented index before
  \<^verbatim>\<open>IS_SCN_COMPLETED\<close> is tested. In S1 the advance that completes the scenario
  takes the index to 2, the length of the job sequence, and the read there is past the
  end: \<open>m_currTask\<close> is no job.
\<close>

theorem completing_advance_reads_past_end:
  "(case run (ex_env 50) (Some (ex_dgram 33 1)) S1_waiting of
      Inl f \<Rightarrow> False
    | Inr rw \<Rightarrow>
        fst rw = ROK
        \<and> GSIM_UE_SSN_SCN_COMPLETE \<in> m_bitmask (snd rw)
        \<and> m_currTaskIndx (snd rw) = 2
        \<and> length (m_jobSeq (snd rw)) = 2
        \<and> m_currTask (snd rw) = None)"
  by (simp add: scenario_defs handler_defs prim_defs Let_def)

text \<open>
  C10. \<^verbatim>\<open>isExpectedRsp\<close> reads \<^verbatim>\<open>m_jobSeq[m_currTaskIndx + 1]\<close> without the
  test \<^verbatim>\<open>nextTaskType\<close> makes. With S1 followed by a wait, after CS_RSP is accepted
  the scenario is not complete and the current job is the last one; a second CS_RSP
  (the peer's retransmission) makes \<^verbatim>\<open>isExpectedRsp\<close> read past the end. So
  does a CS_RSP that arrives at 500, while the session is paused in the wait.
\<close>

theorem response_after_last_recv_reads_past_end:
  "(case then_run (ex_env 50) (Some (ex_dgram 33 1))
           (run (ex_env 0) None (ex_session scenario_S1_wait)) of
      Inl f \<Rightarrow> False
    | Inr rw \<Rightarrow>
        GSIM_UE_SSN_SCN_COMPLETE \<notin> m_bitmask (snd rw)
        \<and> m_currTaskIndx (snd rw) + 1 = length (m_jobSeq (snd rw))
        \<and> isExpectedRsp (snd rw) (ex_msg 33 1) = Inl JobIndexOutOfRange
        \<and> run (ex_env 55) (Some (ex_dgram 33 1)) (snd rw) = Inl JobIndexOutOfRange)
   \<and> (case then_run (ex_env 60) None
             (then_run (ex_env 50) (Some (ex_dgram 33 1))
                (run (ex_env 0) None (ex_session scenario_S1_wait))) of
        Inl f \<Rightarrow> False
      | Inr rw \<Rightarrow>
          GSIM_UE_SSN_SCN_COMPLETE \<notin> m_bitmask (snd rw)
          \<and> m_taskState (snd rw) = TASK_STATE_PAUSED
          \<and> m_wakeTime (snd rw) = 1060
          \<and> run (ex_env 500) (Some (ex_dgram 33 1)) (snd rw) = Inl JobIndexOutOfRange)"
  by (simp add: scenario_defs handler_defs prim_defs Let_def)

end
